theory Spec2Isabelle
  imports Complex_Main
begin

section \<open>Tensors of the array engine\<close>

text \<open>
  \<^verbatim>\<open>bernoulli.py\<close> is written against the tensor operations of the surrounding
  framework (\<^verbatim>\<open>array_ops\<close>, \<^verbatim>\<open>math_ops\<close>, \<^verbatim>\<open>check_ops\<close>, \<^verbatim>\<open>nn\<close>,
  \<^verbatim>\<open>random_ops\<close>). A tensor is an element type, a shape and the elements in row-major
  order. Element values are the real numbers the floating-point values stand for, without
  rounding. The real-valued operations of this section have no infinities and no
  not-a-number, and their natural logarithm agrees with the engine's on positive arguments
  only; where a statement turns on the logarithm of 0 or of a negative number (the relation
  between stored logits and probability), the constructor is translated again over extended
  values, in the section on infinities and not-a-number. The operations are evaluated when
  they are called.
\<close>

datatype dtype = float32 | float64 | int32 | int64 | boolean

datatype error = ValueError string | InvalidArgumentError string

record tensor =
  t_dtype :: dtype
  t_shape :: "nat list"
  t_elems :: "real list"

definition wf_tensor :: "tensor \<Rightarrow> bool" where
  "wf_tensor t = (length (t_elems t) = prod_list (t_shape t))"

definition wf_opt :: "tensor option \<Rightarrow> bool" where
  "wf_opt t = (case t of None \<Rightarrow> True | Some x \<Rightarrow> wf_tensor x)"

definition bind_err :: "error + 'a \<Rightarrow> ('a \<Rightarrow> error + 'b) \<Rightarrow> error + 'b" where
  "bind_err r f = (case r of Inl e \<Rightarrow> Inl e | Inr v \<Rightarrow> f v)"

text \<open>
  Modelled from the spec: the engine's conversion of a Python scalar (\<^verbatim>\<open>1.\<close>,
  \<^verbatim>\<open>0.\<close>, \<^verbatim>\<open>1\<close>) to a tensor is not under src/; a scalar becomes the tensor of
  empty shape holding it, in the element type of the other operand.
\<close>

definition scalar_tensor :: "dtype \<Rightarrow> real \<Rightarrow> tensor" where
  "scalar_tensor dt c = \<lparr>t_dtype = dt, t_shape = [], t_elems = [c]\<rparr>"

subsection \<open>Broadcasting\<close>

text \<open>
  Modelled from the spec: the engine's broadcasting of element-wise operators (section 6,
  "broadcasting-aware shape inference") is not under src/. Shapes are aligned at their
  last dimension; two aligned dimensions are compatible when they are equal or one of
  them is 1. \<open>bshape_rev\<close> works on the reversed shapes, last dimension first.
\<close>

fun bshape_rev :: "nat list \<Rightarrow> nat list \<Rightarrow> nat list option" where
  "bshape_rev [] ys = Some ys"
| "bshape_rev (x # xs) [] = Some (x # xs)"
| "bshape_rev (x # xs) (y # ys) =
     (if x = y then map_option (Cons x) (bshape_rev xs ys)
      else if x = 1 then map_option (Cons y) (bshape_rev xs ys)
      else if y = 1 then map_option (Cons x) (bshape_rev xs ys)
      else None)"

definition broadcast_shape :: "nat list \<Rightarrow> nat list \<Rightarrow> nat list option" where
  "broadcast_shape s1 s2 = map_option rev (bshape_rev (rev s1) (rev s2))"

text \<open>
  \<open>bcast_index s r k\<close> is the row-major position, in an operand of (reversed) shape
  \<open>s\<close>, of the element that is paired with position \<open>k\<close> of the (reversed) result
  shape \<open>r\<close>: the index along the last dimension is \<open>k mod D\<close>, it is kept where the
  operand has that dimension in full and is 0 where the operand's dimension is 1; the
  remaining dimensions are treated the same way on \<open>k div D\<close>. An operand of lower rank
  has no leading dimensions, so they contribute nothing.
\<close>

fun bcast_index :: "nat list \<Rightarrow> nat list \<Rightarrow> nat \<Rightarrow> nat" where
  "bcast_index [] r k = 0"
| "bcast_index (d # ds) [] k = 0"
| "bcast_index (d # ds) (D # Ds) k =
     (if d = 1 then 0 else k mod D) + d * bcast_index ds Ds (k div D)"

definition broadcast_to :: "nat list \<Rightarrow> tensor \<Rightarrow> tensor" where
  "broadcast_to s t =
     \<lparr>t_dtype = t_dtype t, t_shape = s,
      t_elems = map (\<lambda>k. t_elems t ! bcast_index (rev (t_shape t)) (rev s) k)
                    [0..<prod_list s]\<rparr>"

definition elementwise2 ::
  "dtype \<Rightarrow> (real \<Rightarrow> real \<Rightarrow> real) \<Rightarrow> tensor \<Rightarrow> tensor \<Rightarrow> error + tensor" where
  "elementwise2 dt f x y =
     (case broadcast_shape (t_shape x) (t_shape y) of
        None \<Rightarrow> Inl (ValueError ''Incompatible shapes for broadcasting'')
      | Some s \<Rightarrow>
          Inr \<lparr>t_dtype = dt, t_shape = s,
               t_elems = map (\<lambda>k. f (t_elems x ! bcast_index (rev (t_shape x)) (rev s) k)
                                     (t_elems y ! bcast_index (rev (t_shape y)) (rev s) k))
                             [0..<prod_list s]\<rparr>)"

definition elementwise1 :: "(real \<Rightarrow> real) \<Rightarrow> tensor \<Rightarrow> tensor" where
  "elementwise1 f x = x\<lparr>t_elems := map f (t_elems x)\<rparr>"

subsection \<open>The operators the class calls\<close>

text \<open>
  Modelled from the spec: the element-wise operators of \<^verbatim>\<open>math_ops\<close> and
  \<^verbatim>\<open>array_ops\<close> (section 6: add, subtract, multiply, sigmoid, log, exp, sqrt,
  comparison, cast) are not under src/. A comparison yields a \<open>boolean\<close> tensor whose
  elements are 1 for true and 0 for false.
\<close>

definition sigmoid_real :: "real \<Rightarrow> real" where
  "sigmoid_real x = 1 / (1 + exp (- x))"

definition bool_real :: "bool \<Rightarrow> real" where
  "bool_real b = (if b then 1 else 0)"

definition math_ops_add :: "tensor \<Rightarrow> tensor \<Rightarrow> error + tensor" where
  "math_ops_add x y = elementwise2 (t_dtype x) (\<lambda>a b. a + b) x y"

definition math_ops_sub :: "tensor \<Rightarrow> tensor \<Rightarrow> error + tensor" where
  "math_ops_sub x y = elementwise2 (t_dtype x) (\<lambda>a b. a - b) x y"

definition math_ops_mul :: "tensor \<Rightarrow> tensor \<Rightarrow> error + tensor" where
  "math_ops_mul x y = elementwise2 (t_dtype x) (\<lambda>a b. a * b) x y"

definition math_ops_less :: "tensor \<Rightarrow> tensor \<Rightarrow> error + tensor" where
  "math_ops_less x y = elementwise2 boolean (\<lambda>a b. bool_real (a < b)) x y"

definition math_ops_greater :: "tensor \<Rightarrow> tensor \<Rightarrow> error + tensor" where
  "math_ops_greater x y = elementwise2 boolean (\<lambda>a b. bool_real (a > b)) x y"

definition math_ops_neg :: "tensor \<Rightarrow> tensor" where
  "math_ops_neg x = elementwise1 (\<lambda>a. - a) x"

definition math_ops_sigmoid :: "tensor \<Rightarrow> tensor" where
  "math_ops_sigmoid x = elementwise1 sigmoid_real x"

definition math_ops_log :: "tensor \<Rightarrow> tensor" where
  "math_ops_log x = elementwise1 ln x"

definition math_ops_exp :: "tensor \<Rightarrow> tensor" where
  "math_ops_exp x = elementwise1 exp x"

definition math_ops_sqrt :: "tensor \<Rightarrow> tensor" where
  "math_ops_sqrt x = elementwise1 sqrt x"

text \<open>
  A cast to an integer type drops the fraction (towards zero), a cast to \<open>boolean\<close>
  tests against zero, a cast to a floating type keeps the value.
\<close>

definition cast_value :: "dtype \<Rightarrow> real \<Rightarrow> real" where
  "cast_value dt v =
     (case dt of
        float32 \<Rightarrow> v
      | float64 \<Rightarrow> v
      | int32 \<Rightarrow> (if 0 \<le> v then of_int \<lfloor>v\<rfloor> else of_int \<lceil>v\<rceil>)
      | int64 \<Rightarrow> (if 0 \<le> v then of_int \<lfloor>v\<rfloor> else of_int \<lceil>v\<rceil>)
      | boolean \<Rightarrow> (if v = 0 then 0 else 1))"

definition math_ops_cast :: "tensor \<Rightarrow> dtype \<Rightarrow> tensor" where
  "math_ops_cast x dt = \<lparr>t_dtype = dt, t_shape = t_shape x, t_elems = map (cast_value dt) (t_elems x)\<rparr>"

definition array_ops_identity :: "tensor \<Rightarrow> tensor" where
  "array_ops_identity x = x"

definition array_ops_ones_like :: "tensor \<Rightarrow> tensor" where
  "array_ops_ones_like x =
     \<lparr>t_dtype = t_dtype x, t_shape = t_shape x, t_elems = replicate (prod_list (t_shape x)) 1\<rparr>"

text \<open>A shape tensor (one-dimensional, integer) is the list of its entries.\<close>

definition array_ops_shape :: "tensor \<Rightarrow> nat list" where
  "array_ops_shape x = t_shape x"

text \<open>
  Modelled from the spec: \<^verbatim>\<open>check_ops.assert_less_equal\<close> is not under src/
  (section 4.1: "assert element-wise ... failing with a validation failure"). The
  assertion holds when every pair of broadcast elements is in order.
\<close>

definition range_error :: error where
  "range_error = InvalidArgumentError ''Condition x <= y did not hold element-wise''"

definition check_ops_assert_less_equal :: "tensor \<Rightarrow> tensor \<Rightarrow> error + unit" where
  "check_ops_assert_less_equal x y =
     bind_err (elementwise2 boolean (\<lambda>a b. bool_real (a \<le> b)) x y)
       (\<lambda>c. if list_all (\<lambda>v. v = 1) (t_elems c) then Inr ()
             else Inl range_error)"

text \<open>
  Modelled from the spec: \<^verbatim>\<open>nn.sigmoid_cross_entropy_with_logits\<close> is not under
  src/. The glossary gives what it computes,
  \<open>- (z * ln (sigmoid x) + (1 - z) * ln (1 - sigmoid x))\<close>, in the stable form
  \<open>max x 0 - x * z + ln (1 + exp (- \<bar>x\<bar>))\<close>; section 4.2 has its two operands of
  identical shape.
\<close>

definition stable_xent :: "real \<Rightarrow> real \<Rightarrow> real" where
  "stable_xent x z = max x 0 - x * z + ln (1 + exp (- \<bar>x\<bar>))"

definition nn_sigmoid_cross_entropy_with_logits :: "tensor \<Rightarrow> tensor \<Rightarrow> error + tensor" where
  "nn_sigmoid_cross_entropy_with_logits logits targets =
     (if t_shape logits \<noteq> t_shape targets
      then Inl (ValueError ''logits and targets must have the same shape'')
      else Inr \<lparr>t_dtype = t_dtype logits, t_shape = t_shape logits,
                t_elems = map2 stable_xent (t_elems logits) (t_elems targets)\<rparr>)"

text \<open>
  Modelled from the spec: \<^verbatim>\<open>random_ops.random_uniform\<close> is not under src/
  (section 6: "a uniform-random generator parameterized by an optional seed and a target
  shape/dtype"; section 4.4: one value in \<open>[0,1)\<close> per element, "absence of seed" meaning
  a nondeterministic draw). The generator is a parameter: \<open>seeded g s k\<close> is the raw
  \<open>k\<close>-th draw of the stream the seed \<open>s\<close> fixes, \<open>unseeded g k\<close> the raw \<open>k\<close>-th draw of
  the ambient stream a call without seed reads; \<open>draw\<close> selects the stream. The
  fractional part of a raw draw is the uniform value. A negative dimension is refused.
\<close>

record generator =
  seeded :: "int \<Rightarrow> nat \<Rightarrow> real"
  unseeded :: "nat \<Rightarrow> real"

definition draw :: "generator \<Rightarrow> int option \<Rightarrow> nat \<Rightarrow> real" where
  "draw g seed = (case seed of Some s \<Rightarrow> seeded g s | None \<Rightarrow> unseeded g)"

definition random_ops_random_uniform ::
  "generator \<Rightarrow> int list \<Rightarrow> int option \<Rightarrow> dtype \<Rightarrow> error + tensor" where
  "random_ops_random_uniform g shp seed dt =
     (if list_ex (\<lambda>d. d < 0) shp then Inl (ValueError ''Dimension must be >= 0'')
      else Inr \<lparr>t_dtype = dt, t_shape = map nat shp,
                t_elems = map (\<lambda>k. frac (draw g seed k)) [0..<prod_list (map nat shp)]\<rparr>)"

text \<open>
  Modelled from the spec: \<^verbatim>\<open>Tensor.set_shape\<close> is not under src/; it records the
  statically inferred shape (section 4.4) and refuses one the tensor does not have.
\<close>

definition set_shape :: "tensor \<Rightarrow> nat list \<Rightarrow> error + tensor" where
  "set_shape t s = (if t_shape t = s then Inr t else Inl (ValueError ''Shapes are not compatible''))"

section \<open>The Bernoulli class\<close>

record bernoulli =
  self_strict_statistics :: bool
  self_name :: string
  self_dtype :: dtype
  self_strict :: bool
  self_logits :: tensor
  self_p :: tensor
  self_q :: tensor
  self_batch_shape :: "nat list"
  self_event_shape :: "nat list"

text \<open>
  \<^verbatim>\<open>__init__\<close>. With \<^verbatim>\<open>logits\<close> alone, \<^verbatim>\<open>p = sigmoid(logits)\<close>; with \<^verbatim>\<open>p\<close>
  alone, the two range assertions guard the identity of \<^verbatim>\<open>p\<close> when \<^verbatim>\<open>strict\<close> is
  set, and \<^verbatim>\<open>logits = log(p) - log(1. - p)\<close>. Then \<^verbatim>\<open>q = 1. - p\<close>, the batch shape is
  the shape of the logits and the event shape is empty.
\<close>

definition resolve_parameters ::
  "tensor option \<Rightarrow> tensor option \<Rightarrow> bool \<Rightarrow> error + (tensor \<times> tensor)" where
  "resolve_parameters logits p strict =
     (case (logits, p) of
        (None, None) \<Rightarrow> Inl (ValueError ''Must pass p or logits.'')
      | (Some lg, Some pr) \<Rightarrow> Inl (ValueError ''Must pass either p or logits, not both.'')
      | (Some lg, None) \<Rightarrow>
          (let l = array_ops_identity lg in Inr (l, math_ops_sigmoid l))
      | (None, Some pr) \<Rightarrow>
          bind_err (if strict
                    then bind_err (check_ops_assert_less_equal pr (scalar_tensor (t_dtype pr) 1))
                           (\<lambda>_. check_ops_assert_less_equal (scalar_tensor (t_dtype pr) 0) pr)
                    else Inr ())
            (\<lambda>_. let p' = array_ops_identity pr in
                  bind_err (math_ops_sub (scalar_tensor (t_dtype p') 1) p')
                    (\<lambda>one_minus_p.
                       bind_err (math_ops_sub (math_ops_log p') (math_ops_log one_minus_p))
                         (\<lambda>l. Inr (l, p')))))"

definition Bernoulli_init ::
  "tensor option \<Rightarrow> tensor option \<Rightarrow> dtype \<Rightarrow> bool \<Rightarrow> bool \<Rightarrow> string \<Rightarrow> error + bernoulli" where
  "Bernoulli_init logits p dtype strict strict_statistics name =
     bind_err (resolve_parameters logits p strict)
       (\<lambda>(l, p').
          bind_err (math_ops_sub (scalar_tensor (t_dtype p') 1) p')
            (\<lambda>q. Inr \<lparr>self_strict_statistics = strict_statistics,
                       self_name = name,
                       self_dtype = dtype,
                       self_strict = strict,
                       self_logits = l,
                       self_p = p',
                       self_q = q,
                       self_batch_shape = array_ops_shape l,
                       self_event_shape = []\<rparr>))"

text \<open>\<^verbatim>\<open>batch_shape()\<close> and \<^verbatim>\<open>get_batch_shape()\<close>.\<close>

definition batch_shape :: "bernoulli \<Rightarrow> nat list" where
  "batch_shape self = self_batch_shape self"

definition get_batch_shape :: "bernoulli \<Rightarrow> nat list" where
  "get_batch_shape self = t_shape (self_logits self)"

text \<open>
  \<^verbatim>\<open>log_prob\<close>: the event is cast to the element type of the logits, each operand is
  multiplied by the ones of the other, and the cross-entropy is negated.
\<close>

definition log_prob :: "bernoulli \<Rightarrow> tensor \<Rightarrow> error + tensor" where
  "log_prob self event0 =
     (let event1 = math_ops_cast event0 (t_dtype (self_logits self)) in
      bind_err (math_ops_mul (array_ops_ones_like event1) (self_logits self))
        (\<lambda>logits.
           bind_err (math_ops_mul (array_ops_ones_like (self_logits self)) event1)
             (\<lambda>event.
                bind_err (nn_sigmoid_cross_entropy_with_logits logits event)
                  (\<lambda>xent. Inr (math_ops_neg xent)))))"

text \<open>
  \<^verbatim>\<open>sample\<close>: \<open>sample_uniform\<close> is the local \<^verbatim>\<open>uniform\<close> (lines 194 to 198), drawn
  for the shape \<^verbatim>\<open>[n] + batch_shape\<close> in \<^verbatim>\<open>dtypes.float32\<close>; the sample is the
  comparison with \<^verbatim>\<open>p\<close>, cast to the sample type.
\<close>

definition sample_uniform :: "generator \<Rightarrow> bernoulli \<Rightarrow> int \<Rightarrow> int option \<Rightarrow> error + tensor" where
  "sample_uniform g self n seed =
     (let new_shape = [n] @ map int (batch_shape self)
      in random_ops_random_uniform g new_shape seed float32)"

definition sample :: "generator \<Rightarrow> bernoulli \<Rightarrow> int \<Rightarrow> int option \<Rightarrow> error + tensor" where
  "sample g self n seed =
     bind_err (sample_uniform g self n seed)
       (\<lambda>uniform.
          bind_err (math_ops_less uniform (self_p self))
            (\<lambda>smp.
               bind_err (set_shape smp ([nat n] @ get_batch_shape self))
                 (\<lambda>smp'. Inr (math_ops_cast smp' (self_dtype self)))))"

text \<open>\<^verbatim>\<open>entropy\<close>, \<^verbatim>\<open>mean\<close>, \<^verbatim>\<open>mode\<close>, \<^verbatim>\<open>variance\<close> and \<^verbatim>\<open>std\<close>.\<close>

definition entropy :: "bernoulli \<Rightarrow> error + tensor" where
  "entropy self =
     (let l = self_logits self in
      bind_err (math_ops_sub (math_ops_sigmoid l) (scalar_tensor (t_dtype l) 1))
        (\<lambda>a. bind_err (math_ops_mul (math_ops_neg l) a)
           (\<lambda>b. bind_err (math_ops_add (math_ops_exp (math_ops_neg l)) (scalar_tensor (t_dtype l) 1))
              (\<lambda>c. math_ops_add b (math_ops_log c)))))"

definition mean :: "bernoulli \<Rightarrow> tensor" where
  "mean self = array_ops_identity (self_p self)"

definition mode :: "bernoulli \<Rightarrow> error + tensor" where
  "mode self =
     bind_err (math_ops_greater (self_p self) (self_q self))
       (\<lambda>b. Inr (math_ops_cast b (self_dtype self)))"

definition variance :: "bernoulli \<Rightarrow> error + tensor" where
  "variance self = math_ops_mul (self_q self) (self_p self)"

definition std :: "bernoulli \<Rightarrow> error + tensor" where
  "std self = bind_err (variance self) (\<lambda>v. Inr (math_ops_sqrt v))"


definition open_unit_opt :: "tensor option \<Rightarrow> bool" where
  "open_unit_opt p =
     (case p of None \<Rightarrow> True | Some pr \<Rightarrow> list_all (\<lambda>v. 0 < v \<and> v < 1) (t_elems pr))"

section \<open>Infinities and not-a-number in the constructor\<close>

text \<open>
  The real-valued tensors above cannot hold what the engine computes at the edge of the
  logarithm's domain: \<^verbatim>\<open>log(0)\<close> is minus infinity and the logarithm of a negative
  number is not-a-number. The relation between the stored logits and the stored probability
  turns on exactly these values (a probability of 0 or 1, or one outside \<open>[0, 1]\<close>), so the
  constructor is translated a second time over values extended with the two infinities and
  not-a-number. Finite values are still the real numbers they stand for, without rounding.
  On finite values the two translations agree (\<open>models_agree\<close> below).

  Modelled from the spec: the arithmetic of the engine on these values is not under src/.
  Section 9 has \<^verbatim>\<open>logits\<close> infinite exactly where the probability is 0 or 1, and
  section 4.1 has an out-of-range probability propagate into not-a-number. A not-a-number
  operand gives not-a-number, the difference of equal infinities is not-a-number, the
  logarithm is minus infinity at 0 and not-a-number below 0, the sigmoid is 1 and 0 at
  plus and minus infinity, and no comparison with not-a-number holds.
\<close>

datatype fval = Num real | PosInf | NegInf | NaN

record xtensor =
  xt_dtype :: dtype
  xt_shape :: "nat list"
  xt_elems :: "fval list"

definition wf_xtensor :: "xtensor \<Rightarrow> bool" where
  "wf_xtensor t = (length (xt_elems t) = prod_list (xt_shape t))"

definition wf_xopt :: "xtensor option \<Rightarrow> bool" where
  "wf_xopt t = (case t of None \<Rightarrow> True | Some x \<Rightarrow> wf_xtensor x)"

fun f_sub :: "fval \<Rightarrow> fval \<Rightarrow> fval" where
  "f_sub NaN b = NaN"
| "f_sub a NaN = NaN"
| "f_sub (Num x) (Num y) = Num (x - y)"
| "f_sub (Num x) PosInf = NegInf"
| "f_sub (Num x) NegInf = PosInf"
| "f_sub PosInf PosInf = NaN"
| "f_sub PosInf b = PosInf"
| "f_sub NegInf NegInf = NaN"
| "f_sub NegInf b = NegInf"

fun f_log :: "fval \<Rightarrow> fval" where
  "f_log (Num x) = (if 0 < x then Num (ln x) else if x = 0 then NegInf else NaN)"
| "f_log PosInf = PosInf"
| "f_log NegInf = NaN"
| "f_log NaN = NaN"

fun f_sigmoid :: "fval \<Rightarrow> fval" where
  "f_sigmoid (Num x) = Num (sigmoid_real x)"
| "f_sigmoid PosInf = Num 1"
| "f_sigmoid NegInf = Num 0"
| "f_sigmoid NaN = NaN"

fun f_le :: "fval \<Rightarrow> fval \<Rightarrow> bool" where
  "f_le NaN b = False"
| "f_le a NaN = False"
| "f_le (Num x) (Num y) = (x \<le> y)"
| "f_le NegInf b = True"
| "f_le a PosInf = True"
| "f_le a b = False"

text \<open>
  The tensor operations the constructor calls, over the extended values, with the
  broadcasting of the real-valued ones.
\<close>

definition scalar_tensor_x :: "dtype \<Rightarrow> real \<Rightarrow> xtensor" where
  "scalar_tensor_x dt c = \<lparr>xt_dtype = dt, xt_shape = [], xt_elems = [Num c]\<rparr>"

definition elementwise2_x ::
  "dtype \<Rightarrow> (fval \<Rightarrow> fval \<Rightarrow> fval) \<Rightarrow> xtensor \<Rightarrow> xtensor \<Rightarrow> error + xtensor" where
  "elementwise2_x dt f x y =
     (case broadcast_shape (xt_shape x) (xt_shape y) of
        None \<Rightarrow> Inl (ValueError ''Incompatible shapes for broadcasting'')
      | Some s \<Rightarrow>
          Inr \<lparr>xt_dtype = dt, xt_shape = s,
               xt_elems = map (\<lambda>k. f (xt_elems x ! bcast_index (rev (xt_shape x)) (rev s) k)
                                      (xt_elems y ! bcast_index (rev (xt_shape y)) (rev s) k))
                              [0..<prod_list s]\<rparr>)"

definition elementwise1_x :: "(fval \<Rightarrow> fval) \<Rightarrow> xtensor \<Rightarrow> xtensor" where
  "elementwise1_x f x = x\<lparr>xt_elems := map f (xt_elems x)\<rparr>"

definition math_ops_sub_x :: "xtensor \<Rightarrow> xtensor \<Rightarrow> error + xtensor" where
  "math_ops_sub_x x y = elementwise2_x (xt_dtype x) f_sub x y"

definition math_ops_log_x :: "xtensor \<Rightarrow> xtensor" where
  "math_ops_log_x x = elementwise1_x f_log x"

definition math_ops_sigmoid_x :: "xtensor \<Rightarrow> xtensor" where
  "math_ops_sigmoid_x x = elementwise1_x f_sigmoid x"

definition array_ops_identity_x :: "xtensor \<Rightarrow> xtensor" where
  "array_ops_identity_x x = x"

definition check_ops_assert_less_equal_x :: "xtensor \<Rightarrow> xtensor \<Rightarrow> error + unit" where
  "check_ops_assert_less_equal_x x y =
     bind_err (elementwise2_x boolean (\<lambda>a b. Num (bool_real (f_le a b))) x y)
       (\<lambda>c. if list_all (\<lambda>v. v = Num 1) (xt_elems c) then Inr ()
             else Inl range_error)"

text \<open>
  \<^verbatim>\<open>__init__\<close> (lines 72 to 95) over the extended values, branch for branch as
  \<open>resolve_parameters\<close> and \<open>Bernoulli_init\<close> above.
\<close>

record bernoulli_x =
  xself_strict_statistics :: bool
  xself_name :: string
  xself_dtype :: dtype
  xself_strict :: bool
  xself_logits :: xtensor
  xself_p :: xtensor
  xself_q :: xtensor
  xself_batch_shape :: "nat list"
  xself_event_shape :: "nat list"

definition resolve_parameters_x ::
  "xtensor option \<Rightarrow> xtensor option \<Rightarrow> bool \<Rightarrow> error + (xtensor \<times> xtensor)" where
  "resolve_parameters_x logits p strict =
     (case (logits, p) of
        (None, None) \<Rightarrow> Inl (ValueError ''Must pass p or logits.'')
      | (Some lg, Some pr) \<Rightarrow> Inl (ValueError ''Must pass either p or logits, not both.'')
      | (Some lg, None) \<Rightarrow>
          (let l = array_ops_identity_x lg in Inr (l, math_ops_sigmoid_x l))
      | (None, Some pr) \<Rightarrow>
          bind_err (if strict
                    then bind_err (check_ops_assert_less_equal_x pr (scalar_tensor_x (xt_dtype pr) 1))
                           (\<lambda>_. check_ops_assert_less_equal_x (scalar_tensor_x (xt_dtype pr) 0) pr)
                    else Inr ())
            (\<lambda>_. let p' = array_ops_identity_x pr in
                  bind_err (math_ops_sub_x (scalar_tensor_x (xt_dtype p') 1) p')
                    (\<lambda>one_minus_p.
                       bind_err (math_ops_sub_x (math_ops_log_x p') (math_ops_log_x one_minus_p))
                         (\<lambda>l. Inr (l, p')))))"

definition Bernoulli_init_x ::
  "xtensor option \<Rightarrow> xtensor option \<Rightarrow> dtype \<Rightarrow> bool \<Rightarrow> bool \<Rightarrow> string \<Rightarrow> error + bernoulli_x" where
  "Bernoulli_init_x logits p dtype strict strict_statistics name =
     bind_err (resolve_parameters_x logits p strict)
       (\<lambda>(l, p').
          bind_err (math_ops_sub_x (scalar_tensor_x (xt_dtype p') 1) p')
            (\<lambda>q. Inr \<lparr>xself_strict_statistics = strict_statistics,
                       xself_name = name,
                       xself_dtype = dtype,
                       xself_strict = strict,
                       xself_logits = l,
                       xself_p = p',
                       xself_q = q,
                       xself_batch_shape = xt_shape l,
                       xself_event_shape = []\<rparr>))"

text \<open>
  A probability element inside \<open>[0, 1]\<close>, and one outside it (a number below 0 or above 1,
  or an infinity).
\<close>

definition in_unit :: "fval \<Rightarrow> bool" where
  "in_unit v = (case v of Num r \<Rightarrow> 0 \<le> r \<and> r \<le> 1 | PosInf \<Rightarrow> False | NegInf \<Rightarrow> False | NaN \<Rightarrow> False)"

definition outside_unit :: "fval \<Rightarrow> bool" where
  "outside_unit v = (case v of Num r \<Rightarrow> r < 0 \<or> 1 < r | PosInf \<Rightarrow> True | NegInf \<Rightarrow> True | NaN \<Rightarrow> False)"

text \<open>
  The instance constructed without \<^verbatim>\<open>strict\<close> from the out-of-range probability
  \<open>1.5\<close>, over the extended values.
\<close>

definition nonstrict_example_x :: "error + bernoulli_x" where
  "nonstrict_example_x =
     Bernoulli_init_x None (Some (scalar_tensor_x float32 (3/2))) int32 False True ''Bernoulli''"

text \<open>A real-valued tensor, and a real-valued instance, read over the extended values.\<close>

definition embed :: "tensor \<Rightarrow> xtensor" where
  "embed t = \<lparr>xt_dtype = t_dtype t, xt_shape = t_shape t, xt_elems = map Num (t_elems t)\<rparr>"

definition embed_bernoulli :: "bernoulli \<Rightarrow> bernoulli_x" where
  "embed_bernoulli d =
     \<lparr>xself_strict_statistics = self_strict_statistics d,
      xself_name = self_name d,
      xself_dtype = self_dtype d,
      xself_strict = self_strict d,
      xself_logits = embed (self_logits d),
      xself_p = embed (self_p d),
      xself_q = embed (self_q d),
      xself_batch_shape = self_batch_shape d,
      xself_event_shape = self_event_shape d\<rparr>"

section \<open>Facts about the engine model\<close>

lemma bind_err_Inr [simp]: "bind_err (Inr v) f = f v"
  by (simp add: bind_err_def)

lemma bind_err_Inl [simp]: "bind_err (Inl e) f = Inl e"
  by (simp add: bind_err_def)

subsection \<open>Broadcast shapes and positions\<close>

lemma bshape_rev_same: "bshape_rev r r = Some r"
  by (induction r) auto

lemma bshape_rev_Nil2: "bshape_rev r [] = Some r"
  by (cases r) auto

lemma bshape_rev_sym: "bshape_rev a b = bshape_rev b a"
  by (induction a b rule: bshape_rev.induct) (auto simp: bshape_rev_Nil2)

lemma bshape_rev_lead: "bshape_rev (r @ [n]) r = Some (r @ [n])"
  by (induction r) auto

lemma broadcast_shape_same: "broadcast_shape s s = Some s"
  by (simp add: broadcast_shape_def bshape_rev_same)

lemma broadcast_shape_Nil1: "broadcast_shape [] s = Some s"
  by (simp add: broadcast_shape_def)

lemma broadcast_shape_Nil2: "broadcast_shape s [] = Some s"
  by (simp add: broadcast_shape_def bshape_rev_Nil2)

lemma broadcast_shape_lead: "broadcast_shape (n # s) s = Some (n # s)"
  by (simp add: broadcast_shape_def bshape_rev_lead)

lemma broadcast_shape_sym: "broadcast_shape a b = broadcast_shape b a"
  by (simp add: broadcast_shape_def bshape_rev_sym)

lemma bcast_index_same: "k < prod_list r \<Longrightarrow> bcast_index r r k = k"
proof (induction r arbitrary: k)
  case Nil
  then show ?case by simp
next
  case (Cons d ds)
  have pos: "0 < d" using Cons.prems by (cases d) auto
  have "k div d < prod_list ds"
    using Cons.prems pos by (simp add: less_mult_imp_div_less mult.commute)
  then have "bcast_index ds ds (k div d) = k div d" by (rule Cons.IH)
  then show ?case by simp
qed

lemma bcast_index_lead: "bcast_index r (r @ [n]) k = k mod prod_list r"
proof (induction r arbitrary: k)
  case Nil
  then show ?case by simp
next
  case (Cons d ds)
  show ?case by (simp add: Cons.IH mod_mult2_eq)
qed

lemma bcast_index_bound:
  "bshape_rev a b = Some r \<Longrightarrow> k < prod_list r \<Longrightarrow>
     bcast_index a r k < prod_list a \<and> bcast_index b r k < prod_list b"
proof (induction a b arbitrary: r k rule: bshape_rev.induct)
  case (1 ys)
  then show ?case by (simp add: bcast_index_same)
next
  case (2 x xs)
  then have "r = x # xs" by simp
  with 2 show ?case using bcast_index_same[of k r] by (simp del: bcast_index.simps(3))
next
  case (3 x xs y ys)
  from "3.prems"(1) obtain z r' where r: "r = z # r'" and r': "bshape_rev xs ys = Some r'"
    and z: "(x = y \<and> z = x) \<or> (x \<noteq> y \<and> x = 1 \<and> z = y) \<or> (x \<noteq> y \<and> x \<noteq> 1 \<and> y = 1 \<and> z = x)"
    by (auto split: if_splits)
  have kz: "k < z * prod_list r'" using "3.prems"(2) r by simp
  then have zpos: "0 < z" by (cases z) auto
  have "k div z < prod_list r'"
    using kz zpos by (simp add: less_mult_imp_div_less mult.commute)
  with r' have ih: "bcast_index xs r' (k div z) < prod_list xs" "bcast_index ys r' (k div z) < prod_list ys"
    using z "3.IH" by blast+
  have step: "\<And>i j d n. i < d \<Longrightarrow> j < n \<Longrightarrow> i + d * j < d * (n::nat)"
  proof -
    fix i j d n :: nat assume "i < d" "j < n"
    then have "i + d * j < d * (j + 1)" by simp
    also have "\<dots> \<le> d * n" using \<open>j < n\<close> by (intro mult_le_mono2) simp
    finally show "i + d * j < d * n" .
  qed
  have ix: "(if x = 1 then 0 else k mod z) < x" using z zpos by auto
  have iy: "(if y = 1 then 0 else k mod z) < y" using z zpos by auto
  show ?case using step[OF ix ih(1)] step[OF iy ih(2)] r by simp
qed

subsection \<open>Element-wise operators on the shapes the class meets\<close>

lemma map_upt_map2:
  "length xs = n \<Longrightarrow> length ys = n \<Longrightarrow>
     map (\<lambda>k. f (xs ! k) (ys ! k)) [0..<n] = map2 f xs ys"
  by (rule nth_equalityI) auto

lemma map_upt_nth: "length xs = n \<Longrightarrow> map (\<lambda>k. g (xs ! k)) [0..<n] = map g xs"
  by (rule nth_equalityI) auto

lemma elementwise2_same_shape:
  assumes "wf_tensor x" "wf_tensor y" "t_shape x = t_shape y"
  shows "elementwise2 dt f x y =
           Inr \<lparr>t_dtype = dt, t_shape = t_shape x, t_elems = map2 f (t_elems x) (t_elems y)\<rparr>"
proof -
  let ?n = "prod_list (t_shape y)"
  have "map (\<lambda>k. f (t_elems x ! bcast_index (rev (t_shape y)) (rev (t_shape y)) k)
                    (t_elems y ! bcast_index (rev (t_shape y)) (rev (t_shape y)) k)) [0..<?n]
        = map (\<lambda>k. f (t_elems x ! k) (t_elems y ! k)) [0..<?n]"
    by (rule map_cong) (simp_all add: bcast_index_same)
  also have "\<dots> = map2 f (t_elems x) (t_elems y)"
    using assms by (intro map_upt_map2) (simp_all add: wf_tensor_def)
  finally show ?thesis
    using assms(3) by (simp add: elementwise2_def broadcast_shape_same)
qed

lemma elementwise2_scalar_left:
  assumes "wf_tensor y"
  shows "elementwise2 dt f (scalar_tensor dt' c) y =
           Inr \<lparr>t_dtype = dt, t_shape = t_shape y, t_elems = map (f c) (t_elems y)\<rparr>"
proof -
  let ?n = "prod_list (t_shape y)"
  have "map (\<lambda>k. f ([c] ! bcast_index [] (rev (t_shape y)) k)
                    (t_elems y ! bcast_index (rev (t_shape y)) (rev (t_shape y)) k)) [0..<?n]
        = map (\<lambda>k. f c (t_elems y ! k)) [0..<?n]"
    by (rule map_cong) (simp_all add: bcast_index_same)
  also have "\<dots> = map (f c) (t_elems y)"
    using assms by (intro map_upt_nth) (simp add: wf_tensor_def)
  finally show ?thesis
    by (simp add: elementwise2_def scalar_tensor_def broadcast_shape_Nil1)
qed

lemma elementwise2_scalar_right:
  assumes "wf_tensor x"
  shows "elementwise2 dt f x (scalar_tensor dt' c) =
           Inr \<lparr>t_dtype = dt, t_shape = t_shape x, t_elems = map (\<lambda>a. f a c) (t_elems x)\<rparr>"
proof -
  let ?n = "prod_list (t_shape x)"
  have "map (\<lambda>k. f (t_elems x ! bcast_index (rev (t_shape x)) (rev (t_shape x)) k)
                    ([c] ! bcast_index [] (rev (t_shape x)) k)) [0..<?n]
        = map (\<lambda>k. f (t_elems x ! k) c) [0..<?n]"
    by (rule map_cong) (simp_all add: bcast_index_same)
  also have "\<dots> = map (\<lambda>a. f a c) (t_elems x)"
    using assms by (intro map_upt_nth) (simp add: wf_tensor_def)
  finally show ?thesis
    by (simp add: elementwise2_def scalar_tensor_def broadcast_shape_Nil2)
qed

lemma elementwise2_lead:
  assumes "t_shape x = n # t_shape y"
  shows "elementwise2 dt f x y =
           Inr \<lparr>t_dtype = dt, t_shape = n # t_shape y,
                t_elems = map (\<lambda>k. f (t_elems x ! k) (t_elems y ! (k mod prod_list (t_shape y))))
                              [0..<n * prod_list (t_shape y)]\<rparr>"
proof -
  let ?s = "t_shape y"
  have "map (\<lambda>k. f (t_elems x ! bcast_index (rev ?s @ [n]) (rev ?s @ [n]) k)
                    (t_elems y ! bcast_index (rev ?s) (rev ?s @ [n]) k)) [0..<n * prod_list ?s]
        = map (\<lambda>k. f (t_elems x ! k) (t_elems y ! (k mod prod_list ?s))) [0..<n * prod_list ?s]"
    by (rule map_cong) (simp_all add: bcast_index_same bcast_index_lead mult.commute)
  then show ?thesis
    using assms by (simp add: elementwise2_def broadcast_shape_lead)
qed

lemma wf_elementwise1 [simp]: "wf_tensor (elementwise1 f x) = wf_tensor x"
  by (simp add: wf_tensor_def elementwise1_def)

lemma wf_scalar_tensor [simp]: "wf_tensor (scalar_tensor dt c)"
  by (simp add: wf_tensor_def scalar_tensor_def)

lemma list_all_bool_real:
  "list_all (\<lambda>v. v = 1) (map (\<lambda>a. bool_real (P a)) xs) = list_all P xs"
  by (induction xs) (auto simp: bool_real_def)

lemma t_dtype_scalar_tensor [simp]: "t_dtype (scalar_tensor dt c) = dt"
  by (simp add: scalar_tensor_def)

lemma assert_le_scalar_right:
  "wf_tensor x \<Longrightarrow>
   check_ops_assert_less_equal x (scalar_tensor dt c) =
     (if list_all (\<lambda>v. v \<le> c) (t_elems x) then Inr () else Inl range_error)"
  by (simp add: check_ops_assert_less_equal_def elementwise2_scalar_right
      list_all_bool_real range_error_def)

lemma assert_le_scalar_left:
  "wf_tensor x \<Longrightarrow>
   check_ops_assert_less_equal (scalar_tensor dt c) x =
     (if list_all (\<lambda>v. c \<le> v) (t_elems x) then Inr () else Inl range_error)"
  by (simp add: check_ops_assert_less_equal_def elementwise2_scalar_left
      list_all_bool_real range_error_def)

lemma one_minus:
  "wf_tensor x \<Longrightarrow>
   math_ops_sub (scalar_tensor (t_dtype x) 1) x =
     Inr \<lparr>t_dtype = t_dtype x, t_shape = t_shape x, t_elems = map (\<lambda>v. 1 - v) (t_elems x)\<rparr>"
  by (simp add: math_ops_sub_def elementwise2_scalar_left)

lemma Bernoulli_init_logits:
  assumes "wf_tensor lg"
  shows "Bernoulli_init (Some lg) None dt st ss nm =
     Inr \<lparr>self_strict_statistics = ss, self_name = nm, self_dtype = dt, self_strict = st,
          self_logits = lg,
          self_p = \<lparr>t_dtype = t_dtype lg, t_shape = t_shape lg,
                    t_elems = map sigmoid_real (t_elems lg)\<rparr>,
          self_q = \<lparr>t_dtype = t_dtype lg, t_shape = t_shape lg,
                    t_elems = map (\<lambda>x. 1 - sigmoid_real x) (t_elems lg)\<rparr>,
          self_batch_shape = t_shape lg, self_event_shape = []\<rparr>"
proof -
  have p: "math_ops_sigmoid lg =
      \<lparr>t_dtype = t_dtype lg, t_shape = t_shape lg, t_elems = map sigmoid_real (t_elems lg)\<rparr>"
    by (simp add: math_ops_sigmoid_def elementwise1_def)
  have wf: "wf_tensor (math_ops_sigmoid lg)"
    using assms by (simp add: math_ops_sigmoid_def)
  show ?thesis
    using one_minus[OF wf]
    by (simp add: Bernoulli_init_def resolve_parameters_def array_ops_identity_def
        array_ops_shape_def p)
qed

lemma Bernoulli_init_p:
  assumes "wf_tensor pr"
  shows "Bernoulli_init None (Some pr) dt st ss nm =
     (if st \<and> \<not> (list_all (\<lambda>v. v \<le> 1) (t_elems pr) \<and> list_all (\<lambda>v. 0 \<le> v) (t_elems pr))
      then Inl range_error
      else Inr \<lparr>self_strict_statistics = ss, self_name = nm, self_dtype = dt, self_strict = st,
          self_logits = \<lparr>t_dtype = t_dtype pr, t_shape = t_shape pr,
                    t_elems = map (\<lambda>v. ln v - ln (1 - v)) (t_elems pr)\<rparr>,
          self_p = pr,
          self_q = \<lparr>t_dtype = t_dtype pr, t_shape = t_shape pr,
                    t_elems = map (\<lambda>v. 1 - v) (t_elems pr)\<rparr>,
          self_batch_shape = t_shape pr, self_event_shape = []\<rparr>)"
proof -
  let ?om = "\<lparr>t_dtype = t_dtype pr, t_shape = t_shape pr, t_elems = map (\<lambda>v. 1 - v) (t_elems pr)\<rparr>"
  have wfs: "wf_tensor (math_ops_log pr)" "wf_tensor (math_ops_log ?om)"
    using assms by (simp_all add: math_ops_log_def) (simp add: wf_tensor_def)
  have sh: "t_shape (math_ops_log pr) = t_shape (math_ops_log ?om)"
    by (simp add: math_ops_log_def elementwise1_def)
  have lg: "math_ops_sub (math_ops_log pr) (math_ops_log ?om) =
      Inr \<lparr>t_dtype = t_dtype pr, t_shape = t_shape pr,
            t_elems = map (\<lambda>v. ln v - ln (1 - v)) (t_elems pr)\<rparr>"
    unfolding math_ops_sub_def elementwise2_same_shape[OF wfs sh]
    by (simp add: math_ops_log_def elementwise1_def zip_map_map zip_same_conv_map comp_def)
  show ?thesis
    using one_minus[OF assms] lg
    by (simp add: Bernoulli_init_def resolve_parameters_def array_ops_identity_def
        array_ops_shape_def assert_le_scalar_right[OF assms] assert_le_scalar_left[OF assms])
qed

section \<open>What the constructor stores\<close>

lemma Bernoulli_init_both: "Bernoulli_init (Some lg) (Some pr) dt st ss nm =
   Inl (ValueError ''Must pass either p or logits, not both.'')"
  by (simp add: Bernoulli_init_def resolve_parameters_def)

lemma Bernoulli_init_neither: "Bernoulli_init None None dt st ss nm =
   Inl (ValueError ''Must pass p or logits.'')"
  by (simp add: Bernoulli_init_def resolve_parameters_def)

lemma instance_cases:
  assumes "Bernoulli_init lg p dt st ss nm = Inr d" "wf_opt lg" "wf_opt p"
  obtains (from_logits) l where "lg = Some l" "p = None" "wf_tensor l"
      "d = \<lparr>self_strict_statistics = ss, self_name = nm, self_dtype = dt, self_strict = st,
          self_logits = l,
          self_p = \<lparr>t_dtype = t_dtype l, t_shape = t_shape l,
                    t_elems = map sigmoid_real (t_elems l)\<rparr>,
          self_q = \<lparr>t_dtype = t_dtype l, t_shape = t_shape l,
                    t_elems = map (\<lambda>x. 1 - sigmoid_real x) (t_elems l)\<rparr>,
          self_batch_shape = t_shape l, self_event_shape = []\<rparr>"
  | (from_p) pr where "lg = None" "p = Some pr" "wf_tensor pr"
      "st \<Longrightarrow> list_all (\<lambda>v. v \<le> 1) (t_elems pr) \<and> list_all (\<lambda>v. 0 \<le> v) (t_elems pr)"
      "d = \<lparr>self_strict_statistics = ss, self_name = nm, self_dtype = dt, self_strict = st,
          self_logits = \<lparr>t_dtype = t_dtype pr, t_shape = t_shape pr,
                    t_elems = map (\<lambda>v. ln v - ln (1 - v)) (t_elems pr)\<rparr>,
          self_p = pr,
          self_q = \<lparr>t_dtype = t_dtype pr, t_shape = t_shape pr,
                    t_elems = map (\<lambda>v. 1 - v) (t_elems pr)\<rparr>,
          self_batch_shape = t_shape pr, self_event_shape = []\<rparr>"
proof (cases lg)
  case None
  note lgN = this
  show ?thesis
  proof (cases p)
    case None
    with lgN assms(1) show ?thesis by (simp add: Bernoulli_init_neither)
  next
    case (Some pr)
    then have wf: "wf_tensor pr" using assms(3) by (simp add: wf_opt_def)
    from assms(1) show ?thesis
      unfolding lgN Some Bernoulli_init_p[OF wf]
      by (intro from_p[of pr]) (use lgN Some wf in \<open>auto split: if_splits\<close>)
  qed
next
  case (Some l)
  note lgS = this
  then have wf: "wf_tensor l" using assms(2) by (simp add: wf_opt_def)
  show ?thesis
  proof (cases p)
    case None
    from assms(1) show ?thesis
      unfolding lgS None Bernoulli_init_logits[OF wf]
      by (intro from_logits[of l]) (use lgS None wf in auto)
  next
    case (Some pr)
    with lgS assms(1) show ?thesis by (simp add: Bernoulli_init_both)
  qed
qed

lemma instance_facts:
  assumes "Bernoulli_init lg p dt st ss nm = Inr d" "wf_opt lg" "wf_opt p"
  shows "wf_tensor (self_logits d)" "wf_tensor (self_p d)" "wf_tensor (self_q d)"
    "t_shape (self_p d) = t_shape (self_logits d)"
    "t_shape (self_q d) = t_shape (self_logits d)"
    "t_elems (self_q d) = map (\<lambda>v. 1 - v) (t_elems (self_p d))"
    "self_batch_shape d = t_shape (self_logits d)"
    "self_dtype d = dt"
  using assms by (cases rule: instance_cases; simp add: wf_tensor_def)+

section \<open>Construction errors\<close>

lemma elementwise2_scalar_left_shape:
  "\<exists>es. elementwise2 dt f (scalar_tensor dt' c) y =
          Inr \<lparr>t_dtype = dt, t_shape = t_shape y, t_elems = es\<rparr>"
  by (simp add: elementwise2_def scalar_tensor_def broadcast_shape_Nil1)

lemma elementwise2_scalar_right_shape:
  "\<exists>es. elementwise2 dt f x (scalar_tensor dt' c) =
          Inr \<lparr>t_dtype = dt, t_shape = t_shape x, t_elems = es\<rparr>"
  by (simp add: elementwise2_def scalar_tensor_def broadcast_shape_Nil2)

lemma assert_no_ValueError1:
  "check_ops_assert_less_equal x (scalar_tensor dt c) \<noteq> Inl (ValueError m)"
  using elementwise2_scalar_right_shape[of boolean "\<lambda>a b. bool_real (a \<le> b)" x dt c]
  by (auto simp: check_ops_assert_less_equal_def range_error_def split: if_splits)

lemma assert_no_ValueError2:
  "check_ops_assert_less_equal (scalar_tensor dt c) x \<noteq> Inl (ValueError m)"
  using elementwise2_scalar_left_shape[of boolean "\<lambda>a b. bool_real (a \<le> b)" dt c x]
  by (auto simp: check_ops_assert_less_equal_def range_error_def split: if_splits)

lemma one_minus_shape:
  "\<exists>es. math_ops_sub (scalar_tensor dt' c) y =
          Inr \<lparr>t_dtype = dt', t_shape = t_shape y, t_elems = es\<rparr>"
  by (simp add: math_ops_sub_def elementwise2_def scalar_tensor_def broadcast_shape_Nil1)

lemma resolve_logits_only:
  "resolve_parameters (Some lg) None st = Inr (lg, math_ops_sigmoid lg)"
  by (simp add: resolve_parameters_def array_ops_identity_def)

lemma resolve_p_only_no_ValueError:
  "resolve_parameters None (Some pr) st \<noteq> Inl (ValueError m)"
proof -
  obtain es where om: "math_ops_sub (scalar_tensor (t_dtype pr) 1) pr =
      Inr \<lparr>t_dtype = t_dtype pr, t_shape = t_shape pr, t_elems = es\<rparr>"
    using one_minus_shape by blast
  have sub: "\<exists>l. math_ops_sub (math_ops_log pr)
        (math_ops_log \<lparr>t_dtype = t_dtype pr, t_shape = t_shape pr, t_elems = es\<rparr>) = Inr l"
    by (simp add: math_ops_sub_def elementwise2_def math_ops_log_def elementwise1_def
        broadcast_shape_same)
  then obtain l where l: "math_ops_sub (math_ops_log pr)
        (math_ops_log \<lparr>t_dtype = t_dtype pr, t_shape = t_shape pr, t_elems = es\<rparr>) = Inr l" ..
  show ?thesis
  proof (cases st)
    case False
    then show ?thesis
      by (simp add: resolve_parameters_def array_ops_identity_def om l)
  next
    case True
    show ?thesis
    proof (cases "check_ops_assert_less_equal pr (scalar_tensor (t_dtype pr) 1)")
      case (Inl e)
      then show ?thesis
        using assert_no_ValueError1[of pr "t_dtype pr" 1 m] True
        by (auto simp: resolve_parameters_def)
    next
      case (Inr u)
      note first = this
      show ?thesis
      proof (cases "check_ops_assert_less_equal (scalar_tensor (t_dtype pr) 0) pr")
        case (Inl e)
        then show ?thesis
          using assert_no_ValueError2[of "t_dtype pr" 0 pr m] True first
          by (auto simp: resolve_parameters_def)
      next
        case (Inr u')
        then show ?thesis
          using True first
          by (simp add: resolve_parameters_def array_ops_identity_def om l)
      qed
    qed
  qed
qed

text \<open>
  C2. Construction with both \<^verbatim>\<open>logits\<close> and \<^verbatim>\<open>p\<close> fails with the
  \<^verbatim>\<open>ValueError\<close> of line 76, construction with neither fails with the
  \<^verbatim>\<open>ValueError\<close> of line 74, and construction with exactly one of the two never
  ends in a \<^verbatim>\<open>ValueError\<close>, whatever the tensor and the flags are.
\<close>

theorem construction_value_error:
  "Bernoulli_init (Some lg) (Some pr) dt st ss nm =
     Inl (ValueError ''Must pass either p or logits, not both.'')
   \<and> Bernoulli_init None None dt st ss nm = Inl (ValueError ''Must pass p or logits.'')
   \<and> (\<forall>m. Bernoulli_init (Some lg) None dt st ss nm \<noteq> Inl (ValueError m))
   \<and> (\<forall>m. Bernoulli_init None (Some pr) dt st ss nm \<noteq> Inl (ValueError m))"
proof (intro conjI allI)
  show "Bernoulli_init (Some lg) (Some pr) dt st ss nm =
     Inl (ValueError ''Must pass either p or logits, not both.'')"
    by (rule Bernoulli_init_both)
  show "Bernoulli_init None None dt st ss nm = Inl (ValueError ''Must pass p or logits.'')"
    by (rule Bernoulli_init_neither)
next
  fix m
  obtain es where "math_ops_sub (scalar_tensor (t_dtype (math_ops_sigmoid lg)) 1) (math_ops_sigmoid lg)
     = Inr \<lparr>t_dtype = t_dtype (math_ops_sigmoid lg), t_shape = t_shape (math_ops_sigmoid lg), t_elems = es\<rparr>"
    using one_minus_shape by blast
  then show "Bernoulli_init (Some lg) None dt st ss nm \<noteq> Inl (ValueError m)"
    by (simp add: Bernoulli_init_def resolve_logits_only)
next
  fix m
  show "Bernoulli_init None (Some pr) dt st ss nm \<noteq> Inl (ValueError m)"
  proof (cases "resolve_parameters None (Some pr) st")
    case (Inl e)
    then show ?thesis
      using resolve_p_only_no_ValueError[of pr st m] by (auto simp: Bernoulli_init_def)
  next
    case (Inr r)
    obtain l p' where r: "r = (l, p')" by (cases r)
    obtain es where "math_ops_sub (scalar_tensor (t_dtype p') 1) p'
       = Inr \<lparr>t_dtype = t_dtype p', t_shape = t_shape p', t_elems = es\<rparr>"
      using one_minus_shape by blast
    then show ?thesis by (simp add: Bernoulli_init_def Inr r)
  qed
qed

text \<open>
  C3. For a probability tensor with an element outside \<open>[0, 1]\<close>, strict construction
  fails with the assertion's validation error; non-strict construction of any probability
  tensor succeeds without a range check, stores the tensor as it was given, and
  \<^verbatim>\<open>mean()\<close> returns it unchanged. The witness is the probability \<open>1.5\<close>.
\<close>

theorem out_of_range_probability:
  assumes "wf_tensor pr"
  shows "(\<not> (list_all (\<lambda>v. v \<le> 1) (t_elems pr) \<and> list_all (\<lambda>v. 0 \<le> v) (t_elems pr))
            \<longrightarrow> Bernoulli_init None (Some pr) dt True ss nm = Inl range_error)
       \<and> (\<exists>d. Bernoulli_init None (Some pr) dt False ss nm = Inr d \<and> self_p d = pr \<and> mean d = pr)"
  by (simp add: Bernoulli_init_p[OF assms] mean_def array_ops_identity_def)

theorem out_of_range_probability_witness:
  "wf_tensor (scalar_tensor float32 (3/2))
   \<and> \<not> (list_all (\<lambda>v. v \<le> 1) (t_elems (scalar_tensor float32 (3/2)))
        \<and> list_all (\<lambda>v. 0 \<le> v) (t_elems (scalar_tensor float32 (3/2))))
   \<and> Bernoulli_init None (Some (scalar_tensor float32 (3/2))) int32 True True ''Bernoulli''
        = Inl range_error
   \<and> (\<exists>d. Bernoulli_init None (Some (scalar_tensor float32 (3/2))) int32 False True ''Bernoulli'' = Inr d
          \<and> self_p d = scalar_tensor float32 (3/2) \<and> mean d = scalar_tensor float32 (3/2))"
proof -
  have wf: "wf_tensor (scalar_tensor float32 (3/2))" by simp
  have out: "\<not> (list_all (\<lambda>v. v \<le> 1) (t_elems (scalar_tensor float32 (3/2)))
        \<and> list_all (\<lambda>v. 0 \<le> v) (t_elems (scalar_tensor float32 (3/2))))"
    by (simp add: scalar_tensor_def)
  show ?thesis
    using out_of_range_probability[OF wf, of int32 True "''Bernoulli''"] wf out by blast
qed

lemma cast_value_bool_real [simp]: "cast_value dt (bool_real b) = bool_real b"
  by (cases dt; cases b) (simp_all add: cast_value_def bool_real_def)

lemma map2_same: "map2 f (map g xs) (map h xs) = map (\<lambda>x. f (g x) (h x)) xs"
  by (induction xs) simp_all

lemma mode_value:
  assumes "wf_tensor (self_p d)" "wf_tensor (self_q d)" "t_shape (self_p d) = t_shape (self_q d)"
  shows "mode d = Inr \<lparr>t_dtype = self_dtype d, t_shape = t_shape (self_p d),
                      t_elems = map2 (\<lambda>a b. bool_real (a > b)) (t_elems (self_p d)) (t_elems (self_q d))\<rparr>"
  unfolding mode_def math_ops_greater_def elementwise2_same_shape[OF assms]
  by (auto simp: math_ops_cast_def)

section \<open>Mode\<close>

text \<open>
  C6. For every constructed instance \<^verbatim>\<open>mode()\<close> succeeds; its result has the sample
  type and the shape of \<^verbatim>\<open>p\<close>, and each element is 1 where the element of \<^verbatim>\<open>p\<close> is
  strictly greater than the element of the stored \<^verbatim>\<open>q\<close> and 0 otherwise. An element of
  \<^verbatim>\<open>p\<close> equal to one half gives 0: the tie goes to 0.
\<close>

theorem mode_strict_greater:
  assumes "Bernoulli_init lg p dt st ss nm = Inr d" "wf_opt lg" "wf_opt p"
  shows "\<exists>m. mode d = Inr m \<and> t_dtype m = self_dtype d \<and> t_shape m = t_shape (self_p d)
           \<and> t_elems m = map2 (\<lambda>a b. if a > b then 1 else 0) (t_elems (self_p d)) (t_elems (self_q d))
           \<and> (\<forall>k < length (t_elems (self_p d)). t_elems (self_p d) ! k = 1/2 \<longrightarrow> t_elems m ! k = 0)"
proof -
  note f = instance_facts[OF assms]
  have sh: "t_shape (self_p d) = t_shape (self_q d)" using f(4,5) by simp
  let ?m = "\<lparr>t_dtype = self_dtype d, t_shape = t_shape (self_p d),
             t_elems = map2 (\<lambda>a b. bool_real (a > b)) (t_elems (self_p d)) (t_elems (self_q d))\<rparr>"
  have m: "mode d = Inr ?m" by (rule mode_value[OF f(2,3) sh])
  have el: "t_elems ?m = map2 (\<lambda>a b. if a > b then 1 else 0) (t_elems (self_p d)) (t_elems (self_q d))"
    by (simp add: bool_real_def)
  have tie: "\<forall>k < length (t_elems (self_p d)). t_elems (self_p d) ! k = 1/2 \<longrightarrow> t_elems ?m ! k = 0"
    by (simp add: f(6) bool_real_def)
  show ?thesis using m el tie by (intro exI[of _ ?m]) simp
qed


theorem mode_strict_greater_witness:
  "wf_opt None \<and> wf_opt (Some \<lparr>t_dtype = float32, t_shape = [3], t_elems = [0, 1/2, 1]\<rparr>)
   \<and> (\<exists>d. Bernoulli_init None (Some \<lparr>t_dtype = float32, t_shape = [3], t_elems = [0, 1/2, 1]\<rparr>)
              int32 True True ''Bernoulli'' = Inr d
          \<and> mode d = Inr \<lparr>t_dtype = int32, t_shape = [3], t_elems = [0, 0, 1]\<rparr>)"
proof -
  let ?P = "\<lparr>t_dtype = float32, t_shape = [3], t_elems = [0, 1/2, 1]\<rparr>"
  have wf: "wf_tensor ?P" by (simp add: wf_tensor_def)
  have wo: "wf_opt None" "wf_opt (Some ?P)" using wf by (simp_all add: wf_opt_def)
  obtain d where init: "Bernoulli_init None (Some ?P) int32 True True ''Bernoulli'' = Inr d"
    and flds: "self_p d = ?P" "t_elems (self_q d) = [1, 1/2, 0]" "self_dtype d = int32"
    using Bernoulli_init_p[OF wf, of int32 True True "''Bernoulli''"] by simp
  from mode_strict_greater[OF init wo] obtain m where m: "mode d = Inr m"
    "t_dtype m = self_dtype d" "t_shape m = t_shape (self_p d)"
    "t_elems m = map2 (\<lambda>a b. if a > b then 1 else 0) (t_elems (self_p d)) (t_elems (self_q d))"
    by blast
  have "m = \<lparr>t_dtype = int32, t_shape = [3], t_elems = [0, 0, 1]\<rparr>"
    using m(2-4) flds by (cases m) simp
  with m(1) init wo show ?thesis by blast
qed

lemma entropy_value:
  assumes "wf_tensor l" "self_logits d = l"
  shows "entropy d = Inr \<lparr>t_dtype = t_dtype l, t_shape = t_shape l,
           t_elems = map (\<lambda>x. - x * (sigmoid_real x - 1) + ln (exp (- x) + 1)) (t_elems l)\<rparr>"
proof -
  let ?es = "t_elems l"
  let ?a = "\<lparr>t_dtype = t_dtype l, t_shape = t_shape l, t_elems = map (\<lambda>x. sigmoid_real x - 1) ?es\<rparr>"
  let ?b = "\<lparr>t_dtype = t_dtype l, t_shape = t_shape l,
             t_elems = map (\<lambda>x. - x * (sigmoid_real x - 1)) ?es\<rparr>"
  let ?c = "\<lparr>t_dtype = t_dtype l, t_shape = t_shape l, t_elems = map (\<lambda>x. exp (- x) + 1) ?es\<rparr>"
  have wfs: "wf_tensor (math_ops_sigmoid l)" "wf_tensor (math_ops_neg l)"
    "wf_tensor (math_ops_exp (math_ops_neg l))" "wf_tensor ?a" "wf_tensor ?b"
    "wf_tensor (math_ops_log ?c)"
    using assms(1)
    by (simp_all add: math_ops_sigmoid_def math_ops_neg_def math_ops_exp_def math_ops_log_def)
       (simp_all add: wf_tensor_def)
  have a: "math_ops_sub (math_ops_sigmoid l) (scalar_tensor (t_dtype l) 1) = Inr ?a"
    unfolding math_ops_sub_def elementwise2_scalar_right[OF wfs(1)]
    by (simp add: math_ops_sigmoid_def elementwise1_def comp_def)
  have b: "math_ops_mul (math_ops_neg l) ?a = Inr ?b"
  proof -
    have sh: "t_shape (math_ops_neg l) = t_shape ?a"
      by (simp add: math_ops_neg_def elementwise1_def)
    show ?thesis
      unfolding math_ops_mul_def elementwise2_same_shape[OF wfs(2) wfs(4) sh]
      by (simp add: math_ops_neg_def elementwise1_def map2_same)
  qed
  have c: "math_ops_add (math_ops_exp (math_ops_neg l)) (scalar_tensor (t_dtype l) 1) = Inr ?c"
    unfolding math_ops_add_def elementwise2_scalar_right[OF wfs(3)]
    by (simp add: math_ops_exp_def math_ops_neg_def elementwise1_def comp_def)
  have fin: "math_ops_add ?b (math_ops_log ?c) =
      Inr \<lparr>t_dtype = t_dtype l, t_shape = t_shape l,
           t_elems = map (\<lambda>x. - x * (sigmoid_real x - 1) + ln (exp (- x) + 1)) ?es\<rparr>"
  proof -
    have sh: "t_shape ?b = t_shape (math_ops_log ?c)"
      by (simp add: math_ops_log_def elementwise1_def)
    have lc: "t_elems (math_ops_log ?c) = map (\<lambda>x. ln (exp (- x) + 1)) ?es"
      by (simp add: math_ops_log_def elementwise1_def comp_def)
    show ?thesis
      unfolding math_ops_add_def elementwise2_same_shape[OF wfs(5) wfs(6) sh] lc
      by (simp add: map2_same)
  qed
  show ?thesis
    using a b c fin by (simp add: entropy_def assms(2))
qed

section \<open>Entropy\<close>

text \<open>
  C7. For every constructed instance \<^verbatim>\<open>entropy()\<close> succeeds and is, element by element
  of the logits \<open>x\<close>, the value \<open>- x * (sigmoid x - 1) + ln (exp (- x) + 1)\<close>.
  By \<open>log_odds_entropy_is_binary_entropy\<close> this is the binary entropy of
  \<open>sigmoid x\<close>.
\<close>

theorem entropy_log_odds_formula:
  assumes "Bernoulli_init lg p dt st ss nm = Inr d" "wf_opt lg" "wf_opt p"
  shows "entropy d =
           Inr \<lparr>t_dtype = t_dtype (self_logits d), t_shape = t_shape (self_logits d),
                t_elems = map (\<lambda>x. - x * (sigmoid_real x - 1) + ln (exp (- x) + 1))
                              (t_elems (self_logits d))\<rparr>"
  using entropy_value[OF instance_facts(1)[OF assms] refl] .

theorem entropy_log_odds_formula_witness:
  "wf_opt (Some (scalar_tensor float32 0)) \<and> wf_opt None
   \<and> (\<exists>d. Bernoulli_init (Some (scalar_tensor float32 0)) None int32 True True ''Bernoulli'' = Inr d
          \<and> entropy d = Inr (scalar_tensor float32 (ln 2)))"
proof -
  let ?L = "scalar_tensor float32 0"
  have wo: "wf_opt (Some ?L)" "wf_opt None" by (simp_all add: wf_opt_def)
  obtain d where init: "Bernoulli_init (Some ?L) None int32 True True ''Bernoulli'' = Inr d"
    and l: "self_logits d = ?L"
    using Bernoulli_init_logits[of ?L int32 True True "''Bernoulli''"] by simp
  have "entropy d = Inr (scalar_tensor float32 (ln 2))"
    using entropy_log_odds_formula[OF init wo] l
    by (simp add: scalar_tensor_def sigmoid_real_def)
  with init wo show ?thesis by blast
qed

lemma sigmoid_pos: "0 < sigmoid_real x"
  by (simp add: sigmoid_real_def add_pos_pos)

lemma sigmoid_less_1: "sigmoid_real x < 1"
  by (simp add: sigmoid_real_def add_pos_pos)

lemma one_minus_sigmoid: "1 - sigmoid_real x = exp (- x) / (1 + exp (- x))"
proof -
  have "1 + exp (- x) \<noteq> 0" by (smt (verit) exp_gt_zero)
  then show ?thesis by (simp add: sigmoid_real_def field_simps)
qed

lemma ln_sigmoid: "ln (sigmoid_real x) = - ln (1 + exp (- x))"
  by (simp add: sigmoid_real_def ln_div add_pos_pos)

lemma ln_one_minus_sigmoid: "ln (1 - sigmoid_real x) = - x - ln (1 + exp (- x))"
proof -
  have "0 < exp (- x)" "0 < 1 + exp (- x)" by (simp_all add: add_pos_pos)
  then have "ln (exp (- x) / (1 + exp (- x))) = ln (exp (- x)) - ln (1 + exp (- x))"
    by (rule ln_divide_pos)
  then show ?thesis by (simp add: one_minus_sigmoid)
qed

lemma logit_sigmoid: "ln (sigmoid_real x) - ln (1 - sigmoid_real x) = x"
  by (simp add: ln_sigmoid ln_one_minus_sigmoid)

lemma sigmoid_logit:
  assumes "0 < v" "v < 1"
  shows "sigmoid_real (ln v - ln (1 - v)) = v"
proof -
  have "exp (- (ln v - ln (1 - v))) = exp (ln (1 - v)) / exp (ln v)"
    by (simp add: exp_diff)
  also have "\<dots> = (1 - v) / v" using assms by simp
  finally have e: "exp (- (ln v - ln (1 - v))) = (1 - v) / v" .
  have "1 / (1 + (1 - v) / v) = v" using assms by (simp add: field_simps)
  then show ?thesis unfolding sigmoid_real_def e .
qed

lemma log_odds_entropy_is_binary_entropy:
  "- x * (sigmoid_real x - 1) + ln (exp (- x) + 1) =
     - sigmoid_real x * ln (sigmoid_real x) - (1 - sigmoid_real x) * ln (1 - sigmoid_real x)"
  by (simp add: ln_sigmoid ln_one_minus_sigmoid algebra_simps)





section \<open>Variance\<close>






section \<open>Consistency of logits and probability\<close>

lemma elementwise2_x_same_shape:
  assumes "wf_xtensor x" "wf_xtensor y" "xt_shape x = xt_shape y"
  shows "elementwise2_x dt f x y =
           Inr \<lparr>xt_dtype = dt, xt_shape = xt_shape x, xt_elems = map2 f (xt_elems x) (xt_elems y)\<rparr>"
proof -
  let ?n = "prod_list (xt_shape y)"
  have "map (\<lambda>k. f (xt_elems x ! bcast_index (rev (xt_shape y)) (rev (xt_shape y)) k)
                    (xt_elems y ! bcast_index (rev (xt_shape y)) (rev (xt_shape y)) k)) [0..<?n]
        = map (\<lambda>k. f (xt_elems x ! k) (xt_elems y ! k)) [0..<?n]"
    by (rule map_cong) (simp_all add: bcast_index_same)
  also have "\<dots> = map2 f (xt_elems x) (xt_elems y)"
    using assms by (intro map_upt_map2) (simp_all add: wf_xtensor_def)
  finally show ?thesis
    using assms(3) by (simp add: elementwise2_x_def broadcast_shape_same)
qed

lemma elementwise2_x_scalar_left:
  assumes "wf_xtensor y"
  shows "elementwise2_x dt f (scalar_tensor_x dt' c) y =
           Inr \<lparr>xt_dtype = dt, xt_shape = xt_shape y, xt_elems = map (f (Num c)) (xt_elems y)\<rparr>"
proof -
  let ?n = "prod_list (xt_shape y)"
  have "map (\<lambda>k. f ([Num c] ! bcast_index [] (rev (xt_shape y)) k)
                    (xt_elems y ! bcast_index (rev (xt_shape y)) (rev (xt_shape y)) k)) [0..<?n]
        = map (\<lambda>k. f (Num c) (xt_elems y ! k)) [0..<?n]"
    by (rule map_cong) (simp_all add: bcast_index_same)
  also have "\<dots> = map (f (Num c)) (xt_elems y)"
    using assms by (intro map_upt_nth) (simp add: wf_xtensor_def)
  finally show ?thesis
    by (simp add: elementwise2_x_def scalar_tensor_x_def broadcast_shape_Nil1)
qed

lemma elementwise2_x_scalar_right:
  assumes "wf_xtensor x"
  shows "elementwise2_x dt f x (scalar_tensor_x dt' c) =
           Inr \<lparr>xt_dtype = dt, xt_shape = xt_shape x, xt_elems = map (\<lambda>a. f a (Num c)) (xt_elems x)\<rparr>"
proof -
  let ?n = "prod_list (xt_shape x)"
  have "map (\<lambda>k. f (xt_elems x ! bcast_index (rev (xt_shape x)) (rev (xt_shape x)) k)
                    ([Num c] ! bcast_index [] (rev (xt_shape x)) k)) [0..<?n]
        = map (\<lambda>k. f (xt_elems x ! k) (Num c)) [0..<?n]"
    by (rule map_cong) (simp_all add: bcast_index_same)
  also have "\<dots> = map (\<lambda>a. f a (Num c)) (xt_elems x)"
    using assms by (intro map_upt_nth) (simp add: wf_xtensor_def)
  finally show ?thesis
    by (simp add: elementwise2_x_def scalar_tensor_x_def broadcast_shape_Nil2)
qed

lemma xt_dtype_scalar_tensor_x [simp]: "xt_dtype (scalar_tensor_x dt c) = dt"
  by (simp add: scalar_tensor_x_def)

lemma list_all_Num_bool_real:
  "list_all (\<lambda>v. v = Num 1) (map (\<lambda>a. Num (bool_real (P a))) xs) = list_all P xs"
  by (induction xs) (auto simp: bool_real_def)

lemma assert_le_x_scalar_right:
  "wf_xtensor x \<Longrightarrow>
   check_ops_assert_less_equal_x x (scalar_tensor_x dt c) =
     (if list_all (\<lambda>v. f_le v (Num c)) (xt_elems x) then Inr () else Inl range_error)"
  by (simp add: check_ops_assert_less_equal_x_def elementwise2_x_scalar_right
      list_all_Num_bool_real)

lemma assert_le_x_scalar_left:
  "wf_xtensor x \<Longrightarrow>
   check_ops_assert_less_equal_x (scalar_tensor_x dt c) x =
     (if list_all (\<lambda>v. f_le (Num c) v) (xt_elems x) then Inr () else Inl range_error)"
  by (simp add: check_ops_assert_less_equal_x_def elementwise2_x_scalar_left
      list_all_Num_bool_real)

lemma one_minus_x:
  "wf_xtensor x \<Longrightarrow>
   math_ops_sub_x (scalar_tensor_x (xt_dtype x) 1) x =
     Inr \<lparr>xt_dtype = xt_dtype x, xt_shape = xt_shape x,
          xt_elems = map (f_sub (Num 1)) (xt_elems x)\<rparr>"
  by (simp add: math_ops_sub_x_def elementwise2_x_scalar_left)

lemma f_le_unit: "(f_le v (Num 1) \<and> f_le (Num 0) v) = in_unit v"
  by (cases v) (auto simp: in_unit_def)

lemma Bernoulli_init_x_logits:
  assumes "wf_xtensor lg"
  shows "Bernoulli_init_x (Some lg) None dt st ss nm =
     Inr \<lparr>xself_strict_statistics = ss, xself_name = nm, xself_dtype = dt, xself_strict = st,
          xself_logits = lg,
          xself_p = \<lparr>xt_dtype = xt_dtype lg, xt_shape = xt_shape lg,
                     xt_elems = map f_sigmoid (xt_elems lg)\<rparr>,
          xself_q = \<lparr>xt_dtype = xt_dtype lg, xt_shape = xt_shape lg,
                     xt_elems = map (\<lambda>x. f_sub (Num 1) (f_sigmoid x)) (xt_elems lg)\<rparr>,
          xself_batch_shape = xt_shape lg, xself_event_shape = []\<rparr>"
proof -
  have p: "math_ops_sigmoid_x lg =
      \<lparr>xt_dtype = xt_dtype lg, xt_shape = xt_shape lg, xt_elems = map f_sigmoid (xt_elems lg)\<rparr>"
    by (simp add: math_ops_sigmoid_x_def elementwise1_x_def)
  have wf: "wf_xtensor (math_ops_sigmoid_x lg)"
    using assms by (simp add: p wf_xtensor_def)
  show ?thesis
    using one_minus_x[OF wf]
    by (simp add: Bernoulli_init_x_def resolve_parameters_x_def array_ops_identity_x_def p comp_def)
qed

lemma Bernoulli_init_x_p:
  assumes "wf_xtensor pr"
  shows "Bernoulli_init_x None (Some pr) dt st ss nm =
     (if st \<and> \<not> list_all in_unit (xt_elems pr)
      then Inl range_error
      else Inr \<lparr>xself_strict_statistics = ss, xself_name = nm, xself_dtype = dt, xself_strict = st,
          xself_logits = \<lparr>xt_dtype = xt_dtype pr, xt_shape = xt_shape pr,
                    xt_elems = map (\<lambda>v. f_sub (f_log v) (f_log (f_sub (Num 1) v))) (xt_elems pr)\<rparr>,
          xself_p = pr,
          xself_q = \<lparr>xt_dtype = xt_dtype pr, xt_shape = xt_shape pr,
                    xt_elems = map (f_sub (Num 1)) (xt_elems pr)\<rparr>,
          xself_batch_shape = xt_shape pr, xself_event_shape = []\<rparr>)"
proof -
  let ?om = "\<lparr>xt_dtype = xt_dtype pr, xt_shape = xt_shape pr,
              xt_elems = map (f_sub (Num 1)) (xt_elems pr)\<rparr>"
  have wfs: "wf_xtensor (math_ops_log_x pr)" "wf_xtensor (math_ops_log_x ?om)"
    using assms by (simp_all add: math_ops_log_x_def elementwise1_x_def wf_xtensor_def)
  have sh: "xt_shape (math_ops_log_x pr) = xt_shape (math_ops_log_x ?om)"
    by (simp add: math_ops_log_x_def elementwise1_x_def)
  have lg: "math_ops_sub_x (math_ops_log_x pr) (math_ops_log_x ?om) =
      Inr \<lparr>xt_dtype = xt_dtype pr, xt_shape = xt_shape pr,
            xt_elems = map (\<lambda>v. f_sub (f_log v) (f_log (f_sub (Num 1) v))) (xt_elems pr)\<rparr>"
    unfolding math_ops_sub_x_def elementwise2_x_same_shape[OF wfs sh]
    by (simp add: math_ops_log_x_def elementwise1_x_def map2_same)
  have both: "(list_all (\<lambda>v. f_le v (Num 1)) (xt_elems pr) \<and> list_all (\<lambda>v. f_le (Num 0) v) (xt_elems pr))
      = list_all in_unit (xt_elems pr)"
    using f_le_unit by (auto simp: list_all_iff)
  show ?thesis
  proof (cases "list_all (\<lambda>v. f_le v (Num 1)) (xt_elems pr)")
    case True
    with both show ?thesis
      using one_minus_x[OF assms] lg
      by (simp add: Bernoulli_init_x_def resolve_parameters_x_def array_ops_identity_x_def
          assert_le_x_scalar_right[OF assms] assert_le_x_scalar_left[OF assms])
  next
    case False
    with both show ?thesis
      using one_minus_x[OF assms] lg
      by (simp add: Bernoulli_init_x_def resolve_parameters_x_def array_ops_identity_x_def
          assert_le_x_scalar_right[OF assms] assert_le_x_scalar_left[OF assms])
  qed
qed

lemma logit_of_sigmoid_x:
  "f_sub (f_log (f_sigmoid x)) (f_log (f_sub (Num 1) (f_sigmoid x))) = x"
proof (cases x)
  case (Num r)
  have "0 < sigmoid_real r" "0 < 1 - sigmoid_real r"
    using sigmoid_pos[of r] sigmoid_less_1[of r] by simp_all
  then show ?thesis using Num by (simp add: logit_sigmoid)
qed simp_all

lemma sigmoid_of_logit_x:
  assumes "in_unit v"
  shows "f_sigmoid (f_sub (f_log v) (f_log (f_sub (Num 1) v))) = v"
proof -
  from assms obtain r where v: "v = Num r" and r: "0 \<le> r" "r \<le> 1"
    by (cases v) (auto simp: in_unit_def)
  consider "r = 0" | "r = 1" | "0 < r" "r < 1" using r by linarith
  then show ?thesis
  proof cases
    case 1 then show ?thesis by (simp add: v)
  next
    case 2 then show ?thesis by (simp add: v)
  next
    case 3 then show ?thesis by (simp add: v sigmoid_logit)
  qed
qed

lemma sigmoid_of_logit_outside:
  assumes "outside_unit v"
  shows "f_sigmoid (f_sub (f_log v) (f_log (f_sub (Num 1) v))) = NaN"
  using assms by (cases v) (auto simp: outside_unit_def)

lemma outside_unit_not_NaN: "outside_unit v \<Longrightarrow> v \<noteq> NaN"
  by (auto simp: outside_unit_def)

lemma instance_x_cases:
  assumes "Bernoulli_init_x lg p dt st ss nm = Inr d" "wf_xopt lg" "wf_xopt p"
  obtains (from_logits) l where "lg = Some l" "p = None" "wf_xtensor l"
      "xself_logits d = l"
      "xself_p d = \<lparr>xt_dtype = xt_dtype l, xt_shape = xt_shape l,
                     xt_elems = map f_sigmoid (xt_elems l)\<rparr>"
      "xself_q d = \<lparr>xt_dtype = xt_dtype l, xt_shape = xt_shape l,
                     xt_elems = map (\<lambda>x. f_sub (Num 1) (f_sigmoid x)) (xt_elems l)\<rparr>"
  | (from_p) pr where "lg = None" "p = Some pr" "wf_xtensor pr"
      "st \<Longrightarrow> list_all in_unit (xt_elems pr)"
      "xself_logits d = \<lparr>xt_dtype = xt_dtype pr, xt_shape = xt_shape pr,
                    xt_elems = map (\<lambda>v. f_sub (f_log v) (f_log (f_sub (Num 1) v))) (xt_elems pr)\<rparr>"
      "xself_p d = pr"
      "xself_q d = \<lparr>xt_dtype = xt_dtype pr, xt_shape = xt_shape pr,
                    xt_elems = map (f_sub (Num 1)) (xt_elems pr)\<rparr>"
proof (cases lg)
  case None
  note lgN = this
  show ?thesis
  proof (cases p)
    case None
    with lgN assms(1) show ?thesis
      by (simp add: Bernoulli_init_x_def resolve_parameters_x_def)
  next
    case (Some pr)
    then have wf: "wf_xtensor pr" using assms(3) by (simp add: wf_xopt_def)
    from assms(1) show ?thesis
      unfolding lgN Some Bernoulli_init_x_p[OF wf]
      by (intro from_p[of pr]) (use lgN Some wf in \<open>auto split: if_splits\<close>)
  qed
next
  case (Some l)
  note lgS = this
  then have wf: "wf_xtensor l" using assms(2) by (simp add: wf_xopt_def)
  show ?thesis
  proof (cases p)
    case None
    from assms(1) show ?thesis
      unfolding lgS None Bernoulli_init_x_logits[OF wf]
      by (intro from_logits[of l]) (use lgS None wf in auto)
  next
    case (Some pr)
    with lgS assms(1) show ?thesis
      by (simp add: Bernoulli_init_x_def resolve_parameters_x_def)
  qed
qed

lemma log_sub_log_x:
  assumes "length ps = n" "length qs = n" "prod_list s = n"
  shows "math_ops_sub_x (math_ops_log_x \<lparr>xt_dtype = dt, xt_shape = s, xt_elems = ps\<rparr>)
                        (math_ops_log_x \<lparr>xt_dtype = dt, xt_shape = s, xt_elems = qs\<rparr>)
         = Inr \<lparr>xt_dtype = dt, xt_shape = s,
                xt_elems = map2 (\<lambda>a b. f_sub (f_log a) (f_log b)) ps qs\<rparr>"
proof -
  let ?P = "math_ops_log_x \<lparr>xt_dtype = dt, xt_shape = s, xt_elems = ps\<rparr>"
  let ?Q = "math_ops_log_x \<lparr>xt_dtype = dt, xt_shape = s, xt_elems = qs\<rparr>"
  have wfs: "wf_xtensor ?P" "wf_xtensor ?Q"
    using assms by (simp_all add: math_ops_log_x_def elementwise1_x_def wf_xtensor_def)
  have sh: "xt_shape ?P = xt_shape ?Q"
    by (simp add: math_ops_log_x_def elementwise1_x_def)
  have "map2 f_sub (map f_log ps) (map f_log qs) = map2 (\<lambda>a b. f_sub (f_log a) (f_log b)) ps qs"
    by (auto simp: zip_map_map)
  then show ?thesis
    unfolding math_ops_sub_x_def elementwise2_x_same_shape[OF wfs sh]
    by (simp add: math_ops_log_x_def elementwise1_x_def)
qed

text \<open>
  C4, as stated, fails: the instance built without \<^verbatim>\<open>strict\<close> from the probability
  \<open>1.5\<close> is constructed and stores \<open>1.5\<close>, its logits are
  \<^verbatim>\<open>log(1.5) - log(-0.5)\<close>, not-a-number, and so is their sigmoid: the stored probability
  is not the sigmoid of the stored logits.
\<close>

theorem consistency_counterexample:
  "\<not> isl nonstrict_example_x
   \<and> xt_elems (xself_p (projr nonstrict_example_x)) = [Num (3/2)]
   \<and> xt_elems (math_ops_sigmoid_x (xself_logits (projr nonstrict_example_x))) = [NaN]
   \<and> xself_p (projr nonstrict_example_x)
        \<noteq> math_ops_sigmoid_x (xself_logits (projr nonstrict_example_x))"
proof -
  have wf: "wf_xtensor (scalar_tensor_x float32 (3/2))"
    by (simp add: wf_xtensor_def scalar_tensor_x_def)
  have v: "nonstrict_example_x =
     Inr \<lparr>xself_strict_statistics = True, xself_name = ''Bernoulli'', xself_dtype = int32,
          xself_strict = False,
          xself_logits = \<lparr>xt_dtype = float32, xt_shape = [], xt_elems = [NaN]\<rparr>,
          xself_p = scalar_tensor_x float32 (3/2),
          xself_q = \<lparr>xt_dtype = float32, xt_shape = [], xt_elems = [Num (1 - 3/2)]\<rparr>,
          xself_batch_shape = [], xself_event_shape = []\<rparr>"
    unfolding nonstrict_example_x_def Bernoulli_init_x_p[OF wf]
    by (simp add: scalar_tensor_x_def)
  have p: "xt_elems (xself_p (projr nonstrict_example_x)) = [Num (3/2)]"
    by (simp add: v scalar_tensor_x_def)
  have s: "xt_elems (math_ops_sigmoid_x (xself_logits (projr nonstrict_example_x))) = [NaN]"
    by (simp add: v math_ops_sigmoid_x_def elementwise1_x_def)
  from p s have "xself_p (projr nonstrict_example_x)
        \<noteq> math_ops_sigmoid_x (xself_logits (projr nonstrict_example_x))"
    by auto
  with p s show ?thesis by (simp add: v)
qed

text \<open>
  C4, amended. For every constructed instance the stored logits are
  \<^verbatim>\<open>log(p) - log(q)\<close> of the stored probability and complement. The stored probability is
  the sigmoid of the stored logits for every instance built from logits, for every instance
  built with \<^verbatim>\<open>strict\<close> set, and for every instance built from a probability whose
  elements all lie in \<open>[0, 1]\<close>, the ends 0 and 1 included (their logits are minus and plus
  infinity). Whenever an element of the stored probability lies outside \<open>[0, 1]\<close>, the
  instance was built from a probability without \<^verbatim>\<open>strict\<close>, and its probability is not
  the sigmoid of its logits. Finite values are exact reals, so the round trip is exact.
  Equality of tensors is identity of the stored values, so a not-a-number element is equal
  to itself; for a supplied probability that is itself not-a-number the sigmoid relation is
  neither stated nor denied.
\<close>

theorem logits_probability_consistent:
  assumes "Bernoulli_init_x lg p dt st ss nm = Inr d" "wf_xopt lg" "wf_xopt p"
  shows "math_ops_sub_x (math_ops_log_x (xself_p d)) (math_ops_log_x (xself_q d))
           = Inr (xself_logits d)
       \<and> (lg \<noteq> None \<or> st \<or> list_all in_unit (xt_elems (xself_p d))
            \<longrightarrow> xself_p d = math_ops_sigmoid_x (xself_logits d))
       \<and> (list_ex outside_unit (xt_elems (xself_p d))
            \<longrightarrow> lg = None \<and> \<not> st \<and> xself_p d \<noteq> math_ops_sigmoid_x (xself_logits d))"
  using assms
proof (cases rule: instance_x_cases)
  case (from_logits l)
  have n: "length (xt_elems l) = prod_list (xt_shape l)"
    using from_logits(3) by (simp add: wf_xtensor_def)
  have a: "math_ops_sub_x (math_ops_log_x (xself_p d)) (math_ops_log_x (xself_q d)) = Inr l"
    unfolding from_logits(5,6)
    by (subst log_sub_log_x[where n = "prod_list (xt_shape l)"])
       (simp_all add: n map2_same logit_of_sigmoid_x)
  have b: "xself_p d = math_ops_sigmoid_x (xself_logits d)"
    by (simp add: from_logits(4,5) math_ops_sigmoid_x_def elementwise1_x_def)
  have c: "\<not> list_ex outside_unit (xt_elems (xself_p d))"
  proof -
    have "\<not> outside_unit (f_sigmoid x)" for x
      using sigmoid_pos[of "case x of Num r \<Rightarrow> r | _ \<Rightarrow> 0"]
            sigmoid_less_1[of "case x of Num r \<Rightarrow> r | _ \<Rightarrow> 0"]
      by (cases x) (auto simp: outside_unit_def)
    then show ?thesis by (simp add: from_logits(5) list_ex_iff)
  qed
  from a b c show ?thesis by (simp add: from_logits(4))
next
  case (from_p pr)
  have n: "length (xt_elems pr) = prod_list (xt_shape pr)"
    using from_p(3) by (simp add: wf_xtensor_def)
  have pr_eta: "\<lparr>xt_dtype = xt_dtype pr, xt_shape = xt_shape pr, xt_elems = xt_elems pr\<rparr> = pr"
    by (cases pr) simp
  have "math_ops_sub_x (math_ops_log_x \<lparr>xt_dtype = xt_dtype pr, xt_shape = xt_shape pr, xt_elems = xt_elems pr\<rparr>)
             (math_ops_log_x (xself_q d)) = Inr (xself_logits d)"
    unfolding from_p(5,7)
    by (subst log_sub_log_x[where n = "prod_list (xt_shape pr)"])
       (simp_all add: n map2_same[of _ "\<lambda>v. v", simplified])
  then have a: "math_ops_sub_x (math_ops_log_x (xself_p d)) (math_ops_log_x (xself_q d))
           = Inr (xself_logits d)"
    by (simp only: pr_eta from_p(6))
  have sg: "math_ops_sigmoid_x (xself_logits d) =
      \<lparr>xt_dtype = xt_dtype pr, xt_shape = xt_shape pr,
       xt_elems = map (\<lambda>v. f_sigmoid (f_sub (f_log v) (f_log (f_sub (Num 1) v)))) (xt_elems pr)\<rparr>"
    by (simp add: from_p(5) math_ops_sigmoid_x_def elementwise1_x_def comp_def)
  have b: "xself_p d = math_ops_sigmoid_x (xself_logits d)" if "list_all in_unit (xt_elems pr)"
  proof -
    have "map (\<lambda>v. f_sigmoid (f_sub (f_log v) (f_log (f_sub (Num 1) v)))) (xt_elems pr)
        = map (\<lambda>v. v) (xt_elems pr)"
      by (rule map_cong) (use that in \<open>simp_all add: list_all_iff sigmoid_of_logit_x\<close>)
    then show ?thesis by (simp add: sg from_p(6))
  qed
  have c: "xself_p d \<noteq> math_ops_sigmoid_x (xself_logits d) \<and> \<not> st"
    if ex: "list_ex outside_unit (xt_elems pr)"
  proof -
    from ex obtain v where v: "v \<in> set (xt_elems pr)" "outside_unit v"
      by (auto simp: list_ex_iff)
    have "\<not> in_unit v" using v(2) by (cases v) (auto simp: in_unit_def outside_unit_def)
    with v(1) have "\<not> list_all in_unit (xt_elems pr)" by (auto simp: list_all_iff)
    with from_p(4) have ns: "\<not> st" by blast
    have "map (\<lambda>v. f_sigmoid (f_sub (f_log v) (f_log (f_sub (Num 1) v)))) (xt_elems pr) \<noteq> xt_elems pr"
    proof
      assume eq: "map (\<lambda>v. f_sigmoid (f_sub (f_log v) (f_log (f_sub (Num 1) v)))) (xt_elems pr) = xt_elems pr"
      from v(1) obtain i where i: "i < length (xt_elems pr)" "xt_elems pr ! i = v"
        by (auto simp: in_set_conv_nth)
      from eq have "map (\<lambda>v. f_sigmoid (f_sub (f_log v) (f_log (f_sub (Num 1) v)))) (xt_elems pr) ! i
          = xt_elems pr ! i" by simp
      then have "f_sigmoid (f_sub (f_log v) (f_log (f_sub (Num 1) v))) = v"
        using i by simp
      then show False
        using sigmoid_of_logit_outside[OF v(2)] outside_unit_not_NaN[OF v(2)] by simp
    qed
    then have "xt_elems (xself_p d) \<noteq> xt_elems (math_ops_sigmoid_x (xself_logits d))"
      by (simp add: sg from_p(6))
    then have "xself_p d \<noteq> math_ops_sigmoid_x (xself_logits d)"
      by auto
    with ns show ?thesis by simp
  qed
  from a b c from_p(4) show ?thesis by (auto simp: from_p(1,6))
qed


theorem logits_probability_consistent_witness:
  "wf_xopt None
   \<and> wf_xopt (Some \<lparr>xt_dtype = float32, xt_shape = [3], xt_elems = [Num 0, Num (1/2), Num 1]\<rparr>)
   \<and> wf_xopt (Some \<lparr>xt_dtype = float32, xt_shape = [2], xt_elems = [Num (1/2), Num (3/2)]\<rparr>)
   \<and> (\<exists>d. Bernoulli_init_x None
              (Some \<lparr>xt_dtype = float32, xt_shape = [3], xt_elems = [Num 0, Num (1/2), Num 1]\<rparr>)
              int32 True True ''Bernoulli'' = Inr d
          \<and> xt_elems (xself_logits d) = [NegInf, Num 0, PosInf]
          \<and> xself_p d = math_ops_sigmoid_x (xself_logits d)
          \<and> math_ops_sub_x (math_ops_log_x (xself_p d)) (math_ops_log_x (xself_q d))
               = Inr (xself_logits d))
   \<and> (\<exists>d. Bernoulli_init_x None
              (Some \<lparr>xt_dtype = float32, xt_shape = [2], xt_elems = [Num (1/2), Num (3/2)]\<rparr>)
              int32 False True ''Bernoulli'' = Inr d
          \<and> xt_elems (xself_logits d) = [Num 0, NaN]
          \<and> xself_p d \<noteq> math_ops_sigmoid_x (xself_logits d))"
proof -
  let ?P = "\<lparr>xt_dtype = float32, xt_shape = [3], xt_elems = [Num 0, Num (1/2), Num 1]\<rparr>"
  let ?R = "\<lparr>xt_dtype = float32, xt_shape = [2], xt_elems = [Num (1/2), Num (3/2)]\<rparr>"
  have wfP: "wf_xtensor ?P" and wfR: "wf_xtensor ?R" by (simp_all add: wf_xtensor_def)
  have wo: "wf_xopt None" "wf_xopt (Some ?P)" "wf_xopt (Some ?R)"
    using wfP wfR by (simp_all add: wf_xopt_def)
  obtain d where init: "Bernoulli_init_x None (Some ?P) int32 True True ''Bernoulli'' = Inr d"
    and l: "xt_elems (xself_logits d) = [NegInf, Num 0, PosInf]"
    using Bernoulli_init_x_p[OF wfP, of int32 True True "''Bernoulli''"]
    by (simp add: in_unit_def)
  from logits_probability_consistent[OF init wo(1,2)]
  have c: "xself_p d = math_ops_sigmoid_x (xself_logits d)"
    "math_ops_sub_x (math_ops_log_x (xself_p d)) (math_ops_log_x (xself_q d)) = Inr (xself_logits d)"
    by blast+
  obtain e where init': "Bernoulli_init_x None (Some ?R) int32 False True ''Bernoulli'' = Inr e"
    and l': "xt_elems (xself_logits e) = [Num 0, NaN]" and p': "xself_p e = ?R"
    using Bernoulli_init_x_p[OF wfR, of int32 False True "''Bernoulli''"] by simp
  have "list_ex outside_unit (xt_elems (xself_p e))"
    by (simp add: p' outside_unit_def)
  with logits_probability_consistent[OF init' wo(1,3)]
  have c': "xself_p e \<noteq> math_ops_sigmoid_x (xself_logits e)" by blast
  from wo init l c init' l' c' show ?thesis by blast
qed

lemma models_agree:
  assumes "wf_opt lg" "wf_opt p" "open_unit_opt p"
  shows "Bernoulli_init_x (map_option embed lg) (map_option embed p) dt st ss nm
           = map_sum id embed_bernoulli (Bernoulli_init lg p dt st ss nm)"
proof (cases lg)
  case None
  note lgN = this
  show ?thesis
  proof (cases p)
    case None
    with lgN show ?thesis
      by (simp add: Bernoulli_init_neither Bernoulli_init_x_def resolve_parameters_x_def)
  next
    case (Some pr)
    then have wf: "wf_tensor pr" using assms(2) by (simp add: wf_opt_def)
    then have wfx: "wf_xtensor (embed pr)" by (simp add: wf_tensor_def wf_xtensor_def embed_def)
    have unit: "\<forall>v \<in> set (t_elems pr). 0 < v \<and> v < 1"
      using assms(3) Some by (simp add: open_unit_opt_def list_all_iff)
    then have r1: "list_all (\<lambda>v. v \<le> 1) (t_elems pr) \<and> list_all (\<lambda>v. 0 \<le> v) (t_elems pr)"
      by (auto simp: list_all_iff intro: less_imp_le)
    have r2: "list_all in_unit (xt_elems (embed pr))"
      using unit by (auto simp: list_all_iff embed_def in_unit_def intro: less_imp_le)
    have lgs: "map (\<lambda>v. f_sub (f_log v) (f_log (f_sub (Num 1) v))) (map Num (t_elems pr))
        = map Num (map (\<lambda>v. ln v - ln (1 - v)) (t_elems pr))"
      using unit by simp
    show ?thesis
      unfolding lgN Some option.map Bernoulli_init_x_p[OF wfx] Bernoulli_init_p[OF wf]
      using r1 r2 lgs by (simp add: embed_bernoulli_def embed_def comp_def)
  qed
next
  case (Some l)
  note lgS = this
  then have wf: "wf_tensor l" using assms(1) by (simp add: wf_opt_def)
  then have wfx: "wf_xtensor (embed l)" by (simp add: wf_tensor_def wf_xtensor_def embed_def)
  show ?thesis
  proof (cases p)
    case None
    show ?thesis
      unfolding lgS None option.map Bernoulli_init_x_logits[OF wfx] Bernoulli_init_logits[OF wf]
      by (simp add: embed_bernoulli_def embed_def comp_def)
  next
    case (Some pr)
    with lgS show ?thesis
      by (simp add: Bernoulli_init_both Bernoulli_init_x_def resolve_parameters_x_def)
  qed
qed

lemma prod_list_rev_nat: "prod_list (rev xs) = prod_list (xs :: nat list)"
  by (induction xs) simp_all

lemma broadcast_shape_SomeD:
  "broadcast_shape a b = Some s \<Longrightarrow> bshape_rev (rev a) (rev b) = Some (rev s)"
  by (auto simp: broadcast_shape_def)

lemma mul_ones_like:
  assumes "broadcast_shape (t_shape x) (t_shape y) = Some s" "t_dtype x = t_dtype y"
  shows "math_ops_mul (array_ops_ones_like x) y = Inr (broadcast_to s y)"
proof -
  let ?n = "prod_list (t_shape x)"
  have bs: "bshape_rev (rev (t_shape x)) (rev (t_shape y)) = Some (rev s)"
    by (rule broadcast_shape_SomeD[OF assms(1)])
  have "map (\<lambda>k. replicate ?n 1 ! bcast_index (rev (t_shape x)) (rev s) k
                    * (t_elems y ! bcast_index (rev (t_shape y)) (rev s) k)) [0..<prod_list s]
      = map (\<lambda>k. t_elems y ! bcast_index (rev (t_shape y)) (rev s) k) [0..<prod_list s]"
  proof (rule map_cong[OF refl])
    fix k assume "k \<in> set [0..<prod_list s]"
    then have "k < prod_list (rev s)" by (simp add: prod_list_rev_nat)
    from bcast_index_bound[OF bs this]
    have "bcast_index (rev (t_shape x)) (rev s) k < ?n" by (simp add: prod_list_rev_nat)
    then show "replicate ?n 1 ! bcast_index (rev (t_shape x)) (rev s) k
                    * (t_elems y ! bcast_index (rev (t_shape y)) (rev s) k)
               = t_elems y ! bcast_index (rev (t_shape y)) (rev s) k"
      by simp
  qed
  then show ?thesis
    using assms by (simp add: math_ops_mul_def elementwise2_def array_ops_ones_like_def
        broadcast_to_def)
qed

lemma stable_xent_is_cross_entropy:
  "stable_xent x z = - (z * ln (sigmoid_real x) + (1 - z) * ln (1 - sigmoid_real x))"
proof -
  have key: "max x 0 + ln (1 + exp (- \<bar>x\<bar>)) = x + ln (1 + exp (- x))"
  proof (cases "0 \<le> x")
    case True
    then show ?thesis by simp
  next
    case False
    have "x + ln (1 + exp (- x)) = ln (exp x) + ln (1 + exp (- x))" by simp
    also have "\<dots> = ln (exp x * (1 + exp (- x)))"
      by (rule ln_mult_pos[symmetric]) (simp_all add: add_pos_pos)
    also have "exp x * (1 + exp (- x)) = exp x + 1"
      by (simp add: algebra_simps exp_minus)
    finally show ?thesis using False by (simp add: add.commute)
  qed
  have "- (z * ln (sigmoid_real x) + (1 - z) * ln (1 - sigmoid_real x))
      = x - x * z + ln (1 + exp (- x))"
    by (simp add: ln_sigmoid ln_one_minus_sigmoid algebra_simps)
  with key show ?thesis by (simp add: stable_xent_def)
qed

section \<open>Log mass\<close>

text \<open>
  C1. For every instance and every event whose shape broadcasts against the shape of the
  logits to a common shape \<open>s\<close>, \<^verbatim>\<open>log_prob\<close> succeeds and is the negation of the
  stable sigmoid cross-entropy of the logits broadcast to \<open>s\<close> against the event, cast to
  the element type of the logits and broadcast to \<open>s\<close>: multiplying by the ones of the
  other operand is the broadcast, and both operands of the cross-entropy have the shape
  \<open>s\<close>. By \<open>stable_xent_is_cross_entropy\<close> the stable form is the cross-entropy of the
  glossary.
\<close>

theorem log_prob_is_negated_cross_entropy:
  assumes "broadcast_shape (t_shape event) (t_shape (self_logits d)) = Some s"
  shows "\<exists>x. nn_sigmoid_cross_entropy_with_logits
                (broadcast_to s (self_logits d))
                (broadcast_to s (math_ops_cast event (t_dtype (self_logits d)))) = Inr x
           \<and> log_prob d event = Inr (math_ops_neg x)
           \<and> t_shape (broadcast_to s (self_logits d)) = s
           \<and> t_shape (broadcast_to s (math_ops_cast event (t_dtype (self_logits d)))) = s
           \<and> t_dtype (math_ops_cast event (t_dtype (self_logits d))) = t_dtype (self_logits d)"
proof -
  let ?l = "self_logits d"
  let ?e = "math_ops_cast event (t_dtype ?l)"
  have s1: "broadcast_shape (t_shape ?e) (t_shape ?l) = Some s"
    using assms by (simp add: math_ops_cast_def)
  have s2: "broadcast_shape (t_shape ?l) (t_shape ?e) = Some s"
    using s1 by (simp add: broadcast_shape_sym)
  have dt: "t_dtype ?e = t_dtype ?l" by (simp add: math_ops_cast_def)
  have m1: "math_ops_mul (array_ops_ones_like ?e) ?l = Inr (broadcast_to s ?l)"
    by (rule mul_ones_like[OF s1 dt])
  have m2: "math_ops_mul (array_ops_ones_like ?l) ?e = Inr (broadcast_to s ?e)"
    by (rule mul_ones_like[OF s2 dt[symmetric]])
  have sh: "t_shape (broadcast_to s ?l) = s" "t_shape (broadcast_to s ?e) = s"
    by (simp_all add: broadcast_to_def)
  obtain x where x: "nn_sigmoid_cross_entropy_with_logits (broadcast_to s ?l) (broadcast_to s ?e) = Inr x"
    using sh by (simp add: nn_sigmoid_cross_entropy_with_logits_def)
  have "log_prob d event = Inr (math_ops_neg x)"
    by (simp add: log_prob_def Let_def m1 m2 x)
  with x sh dt show ?thesis by blast
qed


lemma log_prob_example_operands:
  "broadcast_to [2] \<lparr>t_dtype = float32, t_shape = [2], t_elems = [0, 0]\<rparr>
     = \<lparr>t_dtype = float32, t_shape = [2], t_elems = [0, 0]\<rparr>"
  "broadcast_to [2] (math_ops_cast (scalar_tensor int32 1) float32)
     = \<lparr>t_dtype = float32, t_shape = [2], t_elems = [1, 1]\<rparr>"
  by (simp_all add: broadcast_to_def math_ops_cast_def scalar_tensor_def cast_value_def
      upt_rec[of 0] upt_rec[of 1] upt_rec[of 2] numeral_2_eq_2)

theorem log_prob_is_negated_cross_entropy_witness:
  "broadcast_shape (t_shape (scalar_tensor int32 1)) [2] = Some [2]
   \<and> (\<exists>d. Bernoulli_init (Some \<lparr>t_dtype = float32, t_shape = [2], t_elems = [0, 0]\<rparr>) None
              int32 True True ''Bernoulli'' = Inr d
          \<and> log_prob d (scalar_tensor int32 1)
              = Inr \<lparr>t_dtype = float32, t_shape = [2], t_elems = [- ln 2, - ln 2]\<rparr>)"
proof -
  let ?L = "\<lparr>t_dtype = float32, t_shape = [2], t_elems = [0, 0]\<rparr>"
  have wf: "wf_tensor ?L" by (simp add: wf_tensor_def)
  have bs: "broadcast_shape (t_shape (scalar_tensor int32 1)) [2] = Some [2]"
    by (simp add: scalar_tensor_def broadcast_shape_Nil1)
  obtain d where init: "Bernoulli_init (Some ?L) None int32 True True ''Bernoulli'' = Inr d"
    and l: "self_logits d = ?L"
    using Bernoulli_init_logits[OF wf, of int32 True True "''Bernoulli''"] by simp
  have bs': "broadcast_shape (t_shape (scalar_tensor int32 1)) (t_shape (self_logits d)) = Some [2]"
    using bs by (simp add: l)
  from log_prob_is_negated_cross_entropy[OF bs'] obtain x where
    x: "nn_sigmoid_cross_entropy_with_logits (broadcast_to [2] (self_logits d))
          (broadcast_to [2] (math_ops_cast (scalar_tensor int32 1) (t_dtype (self_logits d)))) = Inr x"
    and lp: "log_prob d (scalar_tensor int32 1) = Inr (math_ops_neg x)"
    by blast
  have "x = \<lparr>t_dtype = float32, t_shape = [2], t_elems = [ln 2, ln 2]\<rparr>"
    using x unfolding l
    by (simp add: log_prob_example_operands nn_sigmoid_cross_entropy_with_logits_def stable_xent_def)
  then have "log_prob d (scalar_tensor int32 1)
      = Inr \<lparr>t_dtype = float32, t_shape = [2], t_elems = [- ln 2, - ln 2]\<rparr>"
    using lp by (simp add: math_ops_neg_def elementwise1_def)
  with bs init show ?thesis by blast
qed

lemma sample_uniform_value:
  assumes "0 \<le> n"
  shows "sample_uniform g d n seed =
           Inr \<lparr>t_dtype = float32, t_shape = nat n # batch_shape d,
                t_elems = map (\<lambda>k. frac (draw g seed k))
                              [0..<nat n * prod_list (batch_shape d)]\<rparr>"
proof -
  have "\<not> list_ex (\<lambda>d. d < 0) (n # map int (batch_shape d))"
    using assms by (simp add: list_ex_iff)
  moreover have "map nat (map int (batch_shape d)) = batch_shape d"
    by (simp add: comp_def)
  ultimately show ?thesis
    by (simp add: sample_uniform_def random_ops_random_uniform_def draw_def)
qed

lemma frac_unit: "0 \<le> frac (x::real) \<and> frac x < 1"
  by (simp add: frac_lt_1)

lemma sample_value:
  assumes "Bernoulli_init lg p dt st ss nm = Inr d" "wf_opt lg" "wf_opt p" "0 \<le> n"
  shows "sample g d n seed =
           Inr \<lparr>t_dtype = self_dtype d, t_shape = nat n # batch_shape d,
                t_elems = map (\<lambda>k. bool_real (frac (draw g seed k)
                                       < t_elems (self_p d) ! (k mod prod_list (batch_shape d))))
                              [0..<nat n * prod_list (batch_shape d)]\<rparr>"
proof -
  note f = instance_facts[OF assms(1-3)]
  let ?bs = "batch_shape d"
  let ?N = "nat n * prod_list ?bs"
  let ?u = "\<lparr>t_dtype = float32, t_shape = nat n # ?bs,
             t_elems = map (\<lambda>k. frac (draw g seed k)) [0..<?N]\<rparr>"
  have bs: "?bs = t_shape (self_p d)" "get_batch_shape d = ?bs"
    using f by (simp_all add: batch_shape_def get_batch_shape_def)
  have u: "sample_uniform g d n seed = Inr ?u" by (rule sample_uniform_value[OF assms(4)])
  have sh: "t_shape ?u = nat n # t_shape (self_p d)" using bs by simp
  have "map (\<lambda>k. bool_real (t_elems ?u ! k < t_elems (self_p d) ! (k mod prod_list (t_shape (self_p d)))))
            [0..<nat n * prod_list (t_shape (self_p d))]
      = map (\<lambda>k. bool_real (frac (draw g seed k) < t_elems (self_p d) ! (k mod prod_list ?bs)))
            [0..<?N]"
    unfolding bs(1)[symmetric] by (rule map_cong) simp_all
  then have less: "math_ops_less ?u (self_p d) =
      Inr \<lparr>t_dtype = boolean, t_shape = nat n # ?bs,
           t_elems = map (\<lambda>k. bool_real (frac (draw g seed k)
                                  < t_elems (self_p d) ! (k mod prod_list ?bs))) [0..<?N]\<rparr>"
    unfolding math_ops_less_def elementwise2_lead[OF sh] using bs(1) by simp
  show ?thesis
    by (simp add: sample_def u less set_shape_def bs(2) math_ops_cast_def comp_def)
qed

section \<open>Sampling\<close>

text \<open>
  C5. For every constructed instance and every sample count \<open>n \<ge> 0\<close>, \<^verbatim>\<open>sample\<close>
  succeeds. The noise it draws has the shape \<^verbatim>\<open>[n] + batch_shape\<close>, one value per output
  element, each in \<open>[0, 1)\<close>; the result has the sample type, the shape
  \<^verbatim>\<open>[n] + batch_shape\<close>, and its element at row-major position \<open>k\<close> is 1 when the
  \<open>k\<close>-th noise value is strictly less than the probability at position
  \<open>k mod (size of the batch)\<close>, the probability broadcast over the leading sample
  dimension, and 0 otherwise. Statistical independence of the draws is a property of the
  generator and is not stated.
\<close>

theorem sample_thresholds_uniform_noise:
  assumes "Bernoulli_init lg p dt st ss nm = Inr d" "wf_opt lg" "wf_opt p" "0 \<le> n"
  shows "\<exists>u. sample_uniform g d n seed = Inr u
           \<and> batch_shape d = t_shape (self_p d)
           \<and> t_shape u = nat n # batch_shape d
           \<and> length (t_elems u) = nat n * prod_list (batch_shape d)
           \<and> list_all (\<lambda>v. 0 \<le> v \<and> v < 1) (t_elems u)
           \<and> sample g d n seed =
               Inr \<lparr>t_dtype = self_dtype d, t_shape = nat n # batch_shape d,
                    t_elems = map (\<lambda>k. if t_elems u ! k
                                            < t_elems (self_p d) ! (k mod prod_list (batch_shape d))
                                         then 1 else 0)
                                  [0..<nat n * prod_list (batch_shape d)]\<rparr>"
proof -
  note f = instance_facts[OF assms(1-3)]
  let ?N = "nat n * prod_list (batch_shape d)"
  let ?u = "\<lparr>t_dtype = float32, t_shape = nat n # batch_shape d,
             t_elems = map (\<lambda>k. frac (draw g seed k)) [0..<?N]\<rparr>"
  have u: "sample_uniform g d n seed = Inr ?u" by (rule sample_uniform_value[OF assms(4)])
  have bs: "batch_shape d = t_shape (self_p d)" using f by (simp add: batch_shape_def)
  have rng: "list_all (\<lambda>v. 0 \<le> v \<and> v < 1) (t_elems ?u)"
    by (simp add: list_all_iff frac_lt_1)
  have "map (\<lambda>k. bool_real (frac (draw g seed k)
                     < t_elems (self_p d) ! (k mod prod_list (batch_shape d)))) [0..<?N]
      = map (\<lambda>k. if t_elems ?u ! k < t_elems (self_p d) ! (k mod prod_list (batch_shape d))
                  then 1 else 0) [0..<?N]"
    by (rule map_cong) (simp_all add: bool_real_def)
  then have smp: "sample g d n seed =
      Inr \<lparr>t_dtype = self_dtype d, t_shape = nat n # batch_shape d,
           t_elems = map (\<lambda>k. if t_elems ?u ! k
                                   < t_elems (self_p d) ! (k mod prod_list (batch_shape d))
                                then 1 else 0) [0..<?N]\<rparr>"
    using sample_value[OF assms, of g seed] by simp
  show ?thesis
    using u bs rng smp by (intro exI[of _ ?u]) simp
qed

text \<open>
  C9. With a seed supplied, the result of \<^verbatim>\<open>sample\<close> is fixed by the instance, \<open>n\<close>
  and the one stream that seed selects: it is the result under the generator that has this
  stream for every seed and any ambient stream \<open>a\<close> whatever. Two calls with the same
  \<open>n\<close> and seed therefore give identical outputs, in whatever ambient state each is made.
  Nothing is claimed for a call without seed, which reads the ambient stream. That a seed
  fixes its stream is the generator's contract, taken from the spec; \<^verbatim>\<open>sample\<close> adds
  that the seed reaches the generator unchanged and that no other randomness is read.
\<close>

theorem sample_deterministic_in_seed:
  "sample g d n (Some s) = sample \<lparr>seeded = \<lambda>_. seeded g s, unseeded = a\<rparr> d n (Some s)"
proof -
  have "sample_uniform g d n (Some s)
      = sample_uniform \<lparr>seeded = \<lambda>_. seeded g s, unseeded = a\<rparr> d n (Some s)"
    by (simp add: sample_uniform_def random_ops_random_uniform_def draw_def Let_def)
  then show ?thesis by (simp add: sample_def)
qed



lemma upt_4: "[0..<4] = [0, 1, 2, 3]"
  by code_simp

theorem sample_thresholds_uniform_noise_witness:
  "wf_opt None \<and> wf_opt (Some \<lparr>t_dtype = float32, t_shape = [2], t_elems = [1/4, 3/4]\<rparr>)
   \<and> (0::int) \<le> 2
   \<and> (\<exists>d. Bernoulli_init None (Some \<lparr>t_dtype = float32, t_shape = [2], t_elems = [1/4, 3/4]\<rparr>)
              int32 True True ''Bernoulli'' = Inr d
          \<and> sample_uniform \<lparr>seeded = \<lambda>s k. (2 * real k + 1) / 8, unseeded = \<lambda>k. 0\<rparr> d 2 (Some 42)
              = Inr \<lparr>t_dtype = float32, t_shape = [2, 2], t_elems = [1/8, 3/8, 5/8, 7/8]\<rparr>
          \<and> sample \<lparr>seeded = \<lambda>s k. (2 * real k + 1) / 8, unseeded = \<lambda>k. 0\<rparr> d 2 (Some 42)
              = Inr \<lparr>t_dtype = int32, t_shape = [2, 2], t_elems = [1, 1, 0, 0]\<rparr>)"
proof -
  let ?P = "\<lparr>t_dtype = float32, t_shape = [2], t_elems = [1/4, 3/4]\<rparr>"
  let ?G = "\<lparr>seeded = \<lambda>s k. (2 * real k + 1) / 8, unseeded = \<lambda>k. 0\<rparr>"
  have wf: "wf_tensor ?P" by (simp add: wf_tensor_def)
  have wo: "wf_opt None" "wf_opt (Some ?P)" using wf by (simp_all add: wf_opt_def)
  have n: "(0::int) \<le> 2" by simp
  obtain d where init: "Bernoulli_init None (Some ?P) int32 True True ''Bernoulli'' = Inr d"
    and flds: "self_p d = ?P" "self_dtype d = int32"
    using Bernoulli_init_p[OF wf, of int32 True True "''Bernoulli''"] by simp
  from sample_thresholds_uniform_noise[OF init wo n, of ?G "Some 42"] obtain u where
    u: "sample_uniform ?G d 2 (Some 42) = Inr u" and bs: "batch_shape d = t_shape (self_p d)"
    and smp: "sample ?G d 2 (Some 42) =
       Inr \<lparr>t_dtype = self_dtype d, t_shape = nat 2 # batch_shape d,
            t_elems = map (\<lambda>k. if t_elems u ! k
                                    < t_elems (self_p d) ! (k mod prod_list (batch_shape d))
                                 then 1 else 0)
                          [0..<nat 2 * prod_list (batch_shape d)]\<rparr>"
    by blast
  have bs2: "batch_shape d = [2]" using bs flds by simp
  have uval: "u = \<lparr>t_dtype = float32, t_shape = [2, 2], t_elems = [1/8, 3/8, 5/8, 7/8]\<rparr>"
    using u sample_uniform_value[OF n, of ?G d "Some 42"]
    by (simp add: bs2 draw_def upt_4 frac_def)
  have "sample ?G d 2 (Some 42) = Inr \<lparr>t_dtype = int32, t_shape = [2, 2], t_elems = [1, 1, 0, 0]\<rparr>"
    unfolding smp by (simp add: bs2 flds uval upt_4)
  with init wo n u uval show ?thesis by blast
qed

theorem sample_deterministic_in_seed_witness:
  "\<exists>d. Bernoulli_init None (Some \<lparr>t_dtype = float32, t_shape = [2], t_elems = [1/4, 3/4]\<rparr>)
            int32 True True ''Bernoulli'' = Inr d
      \<and> sample \<lparr>seeded = \<lambda>s k. if s = 42 then (2 * real k + 1) / 8 else (7 - 2 * real k) / 8,
                 unseeded = \<lambda>k. 0\<rparr> d 2 (Some 42)
          = Inr \<lparr>t_dtype = int32, t_shape = [2, 2], t_elems = [1, 1, 0, 0]\<rparr>
      \<and> sample \<lparr>seeded = \<lambda>s k. (2 * real k + 1) / 8, unseeded = \<lambda>k. 7/8\<rparr> d 2 (Some 42)
          = Inr \<lparr>t_dtype = int32, t_shape = [2, 2], t_elems = [1, 1, 0, 0]\<rparr>
      \<and> sample \<lparr>seeded = \<lambda>s k. if s = 42 then (2 * real k + 1) / 8 else (7 - 2 * real k) / 8,
                 unseeded = \<lambda>k. 0\<rparr> d 2 (Some 43)
          = Inr \<lparr>t_dtype = int32, t_shape = [2, 2], t_elems = [0, 1, 0, 1]\<rparr>
      \<and> sample \<lparr>seeded = \<lambda>s k. if s = 42 then (2 * real k + 1) / 8 else (7 - 2 * real k) / 8,
                 unseeded = \<lambda>k. 0\<rparr> d 2 None
          = Inr \<lparr>t_dtype = int32, t_shape = [2, 2], t_elems = [1, 1, 1, 1]\<rparr>
      \<and> sample \<lparr>seeded = \<lambda>s k. (2 * real k + 1) / 8, unseeded = \<lambda>k. 7/8\<rparr> d 2 None
          = Inr \<lparr>t_dtype = int32, t_shape = [2, 2], t_elems = [0, 0, 0, 0]\<rparr>"
proof -
  let ?P = "\<lparr>t_dtype = float32, t_shape = [2], t_elems = [1/4, 3/4]\<rparr>"
  let ?G = "\<lparr>seeded = \<lambda>s k. if s = 42 then (2 * real k + 1) / 8 else (7 - 2 * real k) / 8,
             unseeded = \<lambda>k. 0\<rparr>"
  let ?H = "\<lparr>seeded = \<lambda>s k. (2 * real k + 1) / 8, unseeded = \<lambda>k. 7/8\<rparr>"
  have wf: "wf_tensor ?P" by (simp add: wf_tensor_def)
  have wo: "wf_opt None" "wf_opt (Some ?P)" using wf by (simp_all add: wf_opt_def)
  have n: "(0::int) \<le> 2" by simp
  obtain d where init: "Bernoulli_init None (Some ?P) int32 True True ''Bernoulli'' = Inr d"
    and flds: "self_p d = ?P" "self_dtype d = int32"
    using Bernoulli_init_p[OF wf, of int32 True True "''Bernoulli''"] by simp
  have bs: "batch_shape d = [2]"
    using instance_facts(4,7)[OF init wo] flds by (simp add: batch_shape_def)
  have g42: "sample ?G d 2 (Some 42)
      = Inr \<lparr>t_dtype = int32, t_shape = [2, 2], t_elems = [1, 1, 0, 0]\<rparr>"
    unfolding sample_value[OF init wo n]
    by (simp add: bs flds draw_def upt_4 frac_def bool_real_def)
  have g43: "sample ?G d 2 (Some 43)
      = Inr \<lparr>t_dtype = int32, t_shape = [2, 2], t_elems = [0, 1, 0, 1]\<rparr>"
    unfolding sample_value[OF init wo n]
    by (simp add: bs flds draw_def upt_4 frac_def bool_real_def)
  have gN: "sample ?G d 2 None
      = Inr \<lparr>t_dtype = int32, t_shape = [2, 2], t_elems = [1, 1, 1, 1]\<rparr>"
    unfolding sample_value[OF init wo n]
    by (simp add: bs flds draw_def upt_4 frac_def bool_real_def)
  have hN: "sample ?H d 2 None
      = Inr \<lparr>t_dtype = int32, t_shape = [2, 2], t_elems = [0, 0, 0, 0]\<rparr>"
    unfolding sample_value[OF init wo n]
    by (simp add: bs flds draw_def upt_4 frac_def bool_real_def)
  have "sample ?H d 2 (Some 42) = sample ?G d 2 (Some 42)"
    using sample_deterministic_in_seed[of ?G d 2 42 "\<lambda>k. 7/8"] by simp
  with g42 have h42: "sample ?H d 2 (Some 42)
      = Inr \<lparr>t_dtype = int32, t_shape = [2, 2], t_elems = [1, 1, 0, 0]\<rparr>"
    by simp
  from init g42 h42 g43 gN hN show ?thesis by blast
qed


end
